theory Spec2Isabelle
  imports Main "HOL-Library.Word" "HOL-Library.Char_ord" "HOL-Library.List_Lexorder"
begin

unbundle bit_operations_syntax

section \<open>snapdir: directory snapshots\<close>

text \<open>
  The program (package \<open>main\<close> of cmd: \<open>shouldIgnore\<close>, \<open>loadGitignore\<close>,
  \<open>validatePath\<close>, \<open>cloneProject\<close>, \<open>restoreProject\<close>) captures a directory tree into a
  JSON document and rebuilds a tree from such a document. Go strings are byte sequences
  and are modelled as \<^typ>\<open>string\<close>. The functions of the Go standard library that the
  program calls are modelled first, as of Go 1.23 on a Unix system (separator \<open>/\<close>);
  then the program itself, function by function. A function that returns an error
  returns a sum or an option here, and a function that changes the file system returns
  the new one.
\<close>

subsection \<open>unicode/utf8\<close>

definition RuneError :: int where
  "RuneError = 0xFFFD"

definition byte_at :: "string \<Rightarrow> nat \<Rightarrow> int" where
  "byte_at s i = of_char (s ! i)"

text \<open>
  \<open>utf8.DecodeRuneInString\<close>: the first rune of \<open>s\<close> and its width in bytes;
  \<open>(RuneError, 0)\<close> for the empty string and \<open>(RuneError, 1)\<close> for an invalid encoding.
\<close>

definition utf8_DecodeRuneInString :: "string \<Rightarrow> int \<times> nat" where
  "utf8_DecodeRuneInString s =
    (if s = [] then (RuneError, 0)
     else let b0 = byte_at s 0 in
       if b0 < 0x80 then (b0, 1)
       else if b0 < 0xC2 \<or> 0xF4 < b0 then (RuneError, 1)
       else
         let sz = (if b0 < 0xE0 then 2 else if b0 < 0xF0 then 3 else (4 :: nat));
             lo = (if b0 = 0xE0 then 0xA0 else if b0 = 0xF0 then 0x90 else 0x80);
             hi = (if b0 = 0xED then 0x9F else if b0 = 0xF4 then 0x8F else 0xBF)
         in if length s < sz then (RuneError, 1)
            else let b1 = byte_at s 1 in
              if b1 < lo \<or> hi < b1 then (RuneError, 1)
              else if sz \<le> 2 then ((b0 mod 0x20) * 0x40 + b1 mod 0x40, 2)
              else let b2 = byte_at s 2 in
                if b2 < 0x80 \<or> 0xBF < b2 then (RuneError, 1)
                else if sz \<le> 3 then
                  ((b0 mod 0x10) * 0x1000 + (b1 mod 0x40) * 0x40 + b2 mod 0x40, 3)
                else let b3 = byte_at s 3 in
                  if b3 < 0x80 \<or> 0xBF < b3 then (RuneError, 1)
                  else ((b0 mod 8) * 0x40000 + (b1 mod 0x40) * 0x1000
                          + (b2 mod 0x40) * 0x40 + b3 mod 0x40, 4))"

subsection \<open>strings\<close>

definition strings_HasPrefix :: "string \<Rightarrow> string \<Rightarrow> bool" where
  "strings_HasPrefix s pre = (length pre \<le> length s \<and> take (length pre) s = pre)"

text \<open>\<open>strings.Contains s substr\<close>: \<open>substr\<close> occurs in \<open>s\<close> at some position.\<close>

fun strings_Contains :: "string \<Rightarrow> string \<Rightarrow> bool" where
  "strings_Contains [] substr = (substr = [])"
| "strings_Contains (c # s) substr =
    (strings_HasPrefix (c # s) substr \<or> strings_Contains s substr)"

subsection \<open>path/filepath: Base, ToSlash, Match\<close>

definition Separator :: char where
  "Separator = CHR ''/''"

definition filepath_ToSlash :: "string \<Rightarrow> string" where
  "filepath_ToSlash path =
    (if Separator = CHR ''/'' then path
     else map (\<lambda>c. if c = Separator then CHR ''/'' else c) path)"

definition filepath_FromSlash :: "string \<Rightarrow> string" where
  "filepath_FromSlash path =
    (if Separator = CHR ''/'' then path
     else map (\<lambda>c. if c = CHR ''/'' then Separator else c) path)"

text \<open>
  \<open>filepath.Base\<close>: the last element of the path, after trailing separators are
  removed; \<open>.\<close> for the empty path and a single separator for a path of separators only.
\<close>

definition filepath_Base :: "string \<Rightarrow> string" where
  "filepath_Base path =
    (if path = [] then ''.''
     else let p = rev (dropWhile (\<lambda>c. c = Separator) (rev path));
              e = rev (takeWhile (\<lambda>c. c \<noteq> Separator) (rev p))
          in if e = [] then [Separator] else e)"

datatype match_error = ErrBadPattern

text \<open>
  \<open>scanChunk\<close> splits a pattern into its leading stars, the chunk up to the next star
  outside a character class, and the rest. A backslash takes the next byte with it.
\<close>

fun scanChunk_scan :: "bool \<Rightarrow> string \<Rightarrow> string \<times> string" where
  "scanChunk_scan inrange [] = ([], [])"
| "scanChunk_scan inrange [c] =
    (if c = CHR ''*'' \<and> \<not> inrange then ([], [c]) else ([c], []))"
| "scanChunk_scan inrange (c # d # ds) =
    (if c = CHR 0x5C then
       (case scanChunk_scan inrange ds of (a, b) \<Rightarrow> (c # d # a, b))
     else if c = CHR ''['' then
       (case scanChunk_scan True (d # ds) of (a, b) \<Rightarrow> (c # a, b))
     else if c = CHR '']'' then
       (case scanChunk_scan False (d # ds) of (a, b) \<Rightarrow> (c # a, b))
     else if c = CHR ''*'' \<and> \<not> inrange then ([], c # d # ds)
     else (case scanChunk_scan inrange (d # ds) of (a, b) \<Rightarrow> (c # a, b)))"

definition scanChunk :: "string \<Rightarrow> bool \<times> string \<times> string" where
  "scanChunk pattern =
    (let star = (pattern \<noteq> [] \<and> hd pattern = CHR ''*'');
         p = dropWhile (\<lambda>c. c = CHR ''*'') pattern
     in case scanChunk_scan False p of (chunk, rest) \<Rightarrow> (star, chunk, rest))"

text \<open>\<open>getEsc\<close> reads one possibly escaped rune of a character class.\<close>

definition getEsc :: "string \<Rightarrow> match_error + (int \<times> string)" where
  "getEsc chunk =
    (if chunk = [] \<or> hd chunk = CHR ''-'' \<or> hd chunk = CHR '']'' then Inl ErrBadPattern
     else let chunk1 = (if hd chunk = CHR 0x5C then tl chunk else chunk) in
       if chunk1 = [] then Inl ErrBadPattern
       else case utf8_DecodeRuneInString chunk1 of (r, n) \<Rightarrow>
         if r = RuneError \<and> n = 1 then Inl ErrBadPattern
         else let nchunk = drop n chunk1 in
           if nchunk = [] then Inl ErrBadPattern else Inr (r, nchunk))"

lemma utf8_DecodeRuneInString_width:
  "s \<noteq> [] \<Longrightarrow> 1 \<le> snd (utf8_DecodeRuneInString s)"
  by (simp add: utf8_DecodeRuneInString_def Let_def)

lemma getEsc_shorter:
  assumes "getEsc chunk = Inr (r, nchunk)"
  shows "length nchunk < length chunk"
proof -
  from assms have ne: "chunk \<noteq> []"
    by (auto simp: getEsc_def)
  define chunk1 where "chunk1 = (if hd chunk = CHR 0x5C then tl chunk else chunk)"
  from assms have ne1: "chunk1 \<noteq> []"
    by (auto simp: getEsc_def chunk1_def Let_def split: if_splits)
  from assms have "nchunk = drop (snd (utf8_DecodeRuneInString chunk1)) chunk1"
    by (auto simp: getEsc_def chunk1_def Let_def split: if_splits prod.splits)
  moreover have "1 \<le> snd (utf8_DecodeRuneInString chunk1)"
    using ne1 by (rule utf8_DecodeRuneInString_width)
  moreover have "length chunk1 \<le> length chunk"
    by (simp add: chunk1_def)
  ultimately show ?thesis
    using ne1 by (cases chunk1) auto
qed

text \<open>
  The loop over the ranges of a character class \<open>[...]\<close>: \<open>r\<close> is the rune of the name
  being tested, \<open>match\<close> whether a range has contained it, \<open>nrange\<close> the ranges read.
\<close>

function matchClass :: "string \<Rightarrow> int \<Rightarrow> bool \<Rightarrow> int \<Rightarrow> match_error + (string \<times> bool)" where
  "matchClass chunk r match nrange =
    (if chunk \<noteq> [] \<and> hd chunk = CHR '']'' \<and> 0 < nrange then Inr (tl chunk, match)
     else case getEsc chunk of
         Inl e \<Rightarrow> Inl e
       | Inr (lo, chunk1) \<Rightarrow>
           if hd chunk1 = CHR ''-'' then
             (case getEsc (tl chunk1) of
                Inl e \<Rightarrow> Inl e
              | Inr (hi, chunk2) \<Rightarrow>
                  matchClass chunk2 r (match \<or> (lo \<le> r \<and> r \<le> hi)) (nrange + 1))
           else matchClass chunk1 r (match \<or> (lo \<le> r \<and> r \<le> lo)) (nrange + 1))"
  by pat_completeness auto
termination
proof (relation "measure (\<lambda>(chunk, r, match, nrange). length chunk)")
  show "wf (measure (\<lambda>(chunk, r, match, nrange). length chunk))"
    by simp
next
  fix chunk :: string and r :: int and match :: bool and nrange :: int
    and x2 :: "int \<times> string" and lo chunk1 and x2a :: "int \<times> string" and hi chunk2
  assume "getEsc chunk = Inr x2" "(lo, chunk1) = x2"
    and "getEsc (tl chunk1) = Inr x2a" "(hi, chunk2) = x2a"
  then have "length chunk1 < length chunk" "length chunk2 < length (tl chunk1)"
    using getEsc_shorter by metis+
  then show "((chunk2, r, match \<or> lo \<le> r \<and> r \<le> hi, nrange + 1), chunk, r, match, nrange)
      \<in> measure (\<lambda>(chunk, r, match, nrange). length chunk)"
    by simp
next
  fix chunk :: string and r :: int and match :: bool and nrange :: int
    and x2 :: "int \<times> string" and lo chunk1
  assume "getEsc chunk = Inr x2" "(lo, chunk1) = x2"
  then have "length chunk1 < length chunk"
    using getEsc_shorter by metis
  then show "((chunk1, r, match \<or> lo \<le> r \<and> r \<le> lo, nrange + 1), chunk, r, match, nrange)
      \<in> measure (\<lambda>(chunk, r, match, nrange). length chunk)"
    by simp
qed

declare matchClass.simps [simp del]

lemma matchClass_shorter:
  "matchClass chunk r match nrange = Inr (chunk', match') \<Longrightarrow> length chunk' < length chunk"
proof (induction chunk r match nrange rule: matchClass.induct)
  case (1 chunk r match nrange)
  note unfold = matchClass.simps [of chunk r match nrange]
  show ?case
  proof (cases "chunk \<noteq> [] \<and> hd chunk = CHR '']'' \<and> 0 < nrange")
    case True
    with "1.prems" have "chunk' = tl chunk" by (simp add: unfold)
    with True show ?thesis by (cases chunk) auto
  next
    case False
    with "1.prems" obtain lo chunk1 where g1: "getEsc chunk = Inr (lo, chunk1)"
      by (auto simp: unfold split: sum.splits)
    then have l1: "length chunk1 < length chunk" by (rule getEsc_shorter)
    show ?thesis
    proof (cases "hd chunk1 = CHR ''-''")
      case True
      with False g1 "1.prems" obtain hi chunk2 where g2: "getEsc (tl chunk1) = Inr (hi, chunk2)"
        and rec: "matchClass chunk2 r (match \<or> (lo \<le> r \<and> r \<le> hi)) (nrange + 1) = Inr (chunk', match')"
        by (auto simp: unfold split: sum.splits)
      from g2 have "length chunk2 < length (tl chunk1)" by (rule getEsc_shorter)
      moreover from "1.IH"(1) [OF False g1 refl True g2 refl rec]
      have "length chunk' < length chunk2" .
      ultimately show ?thesis using l1 by simp
    next
      case hyphen: False
      with False g1 "1.prems"
      have rec: "matchClass chunk1 r (match \<or> (lo \<le> r \<and> r \<le> lo)) (nrange + 1) = Inr (chunk', match')"
        by (auto simp: unfold split: sum.splits)
      from "1.IH"(2) [OF False g1 refl hyphen rec] l1 show ?thesis by simp
    qed
  qed
qed

text \<open>
  \<open>matchChunk\<close> matches a chunk (literals, \<open>?\<close>, character classes, escapes) against
  the beginning of \<open>s\<close> and returns the rest of \<open>s\<close>. After the match has failed the loop
  goes on reading the chunk, to report a malformed pattern, without reading \<open>s\<close>.
\<close>

function matchChunk_loop :: "string \<Rightarrow> string \<Rightarrow> bool \<Rightarrow> match_error + (string \<times> bool)" where
  "matchChunk_loop chunk s failed =
    (if chunk = [] then (if failed then Inr ([], False) else Inr (s, True))
     else
       let failed1 = (failed \<or> s = []) in
       if hd chunk = CHR ''['' then
         (let r = (if failed1 then 0 else fst (utf8_DecodeRuneInString s));
              s1 = (if failed1 then s else drop (snd (utf8_DecodeRuneInString s)) s);
              negated = (tl chunk \<noteq> [] \<and> hd (tl chunk) = CHR ''^'');
              chunk2 = (if negated then tl (tl chunk) else tl chunk)
          in case matchClass chunk2 r False 0 of
               Inl e \<Rightarrow> Inl e
             | Inr (chunk3, match) \<Rightarrow>
                 matchChunk_loop chunk3 s1 (failed1 \<or> match = negated))
       else if hd chunk = CHR ''?'' then
         matchChunk_loop (tl chunk)
           (if failed1 then s else drop (snd (utf8_DecodeRuneInString s)) s)
           (failed1 \<or> hd s = Separator)
       else if hd chunk = CHR 0x5C then
         (if tl chunk = [] then Inl ErrBadPattern
          else matchChunk_loop (tl (tl chunk)) (if failed1 then s else tl s)
                 (failed1 \<or> hd (tl chunk) \<noteq> hd s))
       else matchChunk_loop (tl chunk) (if failed1 then s else tl s)
              (failed1 \<or> hd chunk \<noteq> hd s))"
  by pat_completeness auto
termination
proof (relation "measure (\<lambda>(chunk, s, failed). length chunk)", goal_cases)
  case 1
  show ?case by simp
next
  case (2 chunk s failed failed1 r s1 negated chunk2 x2 chunk3 match)
  then have "length chunk3 < length chunk2"
    using matchClass_shorter by metis
  moreover from 2 have "length chunk2 \<le> length chunk"
    by simp
  ultimately show ?case by simp
next
  case (3 chunk s failed failed1)
  then show ?case by (cases chunk) auto
next
  case (4 chunk s failed failed1)
  then show ?case by (cases chunk) auto
next
  case (5 chunk s failed failed1)
  then show ?case by (cases chunk) auto
qed

declare matchChunk_loop.simps [simp del]

definition matchChunk :: "string \<Rightarrow> string \<Rightarrow> match_error + (string \<times> bool)" where
  "matchChunk chunk s = matchChunk_loop chunk s False"

text \<open>
  The loop of \<open>Match\<close> after a star: try the chunk at every later position of the name,
  never past a separator. \<open>final\<close> says that the pattern ends with this chunk, so the
  chunk must use up the name.
\<close>

datatype star_result = Found string | Bad match_error | NotFound

fun starLoop :: "string \<Rightarrow> bool \<Rightarrow> string \<Rightarrow> star_result" where
  "starLoop chunk final [] = NotFound"
| "starLoop chunk final (c # name) =
    (if c = Separator then NotFound
     else case matchChunk chunk name of
         Inl e \<Rightarrow> Bad e
       | Inr (t, ok) \<Rightarrow>
           if ok \<and> \<not> (final \<and> t \<noteq> []) then Found t else starLoop chunk final name)"

lemma scanChunk_scan_length:
  "scanChunk_scan inrange p = (a, b) \<Longrightarrow> length a + length b = length p"
  by (induction inrange p arbitrary: a b rule: scanChunk_scan.induct)
     (auto split: if_splits prod.splits)

lemma scanChunk_scan_nonempty:
  "scanChunk_scan False p = (a, b) \<Longrightarrow> p \<noteq> [] \<Longrightarrow> hd p \<noteq> CHR ''*'' \<Longrightarrow> a \<noteq> []"
  by (cases "(False, p)" rule: scanChunk_scan.cases) (auto split: if_splits prod.splits)

lemma scanChunk_shorter:
  assumes "scanChunk pattern = (star, chunk, rest)" and "pattern \<noteq> []"
  shows "length rest < length pattern"
proof -
  define p where "p = dropWhile (\<lambda>c. c = CHR ''*'') pattern"
  from assms(1) have sc: "scanChunk_scan False p = (chunk, rest)"
    by (auto simp: scanChunk_def p_def Let_def split: prod.splits)
  then have len: "length chunk + length rest = length p"
    by (rule scanChunk_scan_length)
  show ?thesis
  proof (cases "hd pattern = CHR ''*''")
    case True
    with assms(2) have "length p < length pattern"
      by (cases pattern) (auto simp: p_def intro: le_imp_less_Suc length_dropWhile_le)
    with len show ?thesis by simp
  next
    case False
    with assms(2) have "p = pattern"
      by (cases pattern) (auto simp: p_def)
    with sc assms(2) False have "chunk \<noteq> []"
      using scanChunk_scan_nonempty by blast
    with len \<open>p = pattern\<close> show ?thesis by (cases chunk) auto
  qed
qed

text \<open>
  Before \<open>Match\<close> returns false with no error it checks that the rest of the pattern is
  well formed.
\<close>

function checkPattern :: "string \<Rightarrow> match_error + bool" where
  "checkPattern pattern =
    (if pattern = [] then Inr False
     else case scanChunk pattern of (star, chunk, rest) \<Rightarrow>
       (case matchChunk chunk [] of
          Inl e \<Rightarrow> Inl e
        | Inr _ \<Rightarrow> checkPattern rest))"
  by pat_completeness auto
termination
proof (relation "measure length", goal_cases)
  case 1
  show ?case by simp
next
  case (2 pattern star x chunk rest res)
  then have "scanChunk pattern = (star, chunk, rest)" by simp
  with 2 have "length rest < length pattern"
    using scanChunk_shorter by blast
  then show ?case by simp
qed

declare checkPattern.simps [simp del]

text \<open>
  \<open>filepath.Match pattern name\<close>: whether the whole name matches the shell pattern;
  \<open>Inl ErrBadPattern\<close> when the pattern is found malformed. The pattern is read chunk
  by chunk against the name, so a malformed part is found when the match gets to it or,
  once the match has failed, by the check of the rest of the pattern.
\<close>

function filepath_Match :: "string \<Rightarrow> string \<Rightarrow> match_error + bool" where
  "filepath_Match pattern name =
    (if pattern = [] then Inr (name = [])
     else case scanChunk pattern of (star, chunk, rest) \<Rightarrow>
       if star \<and> chunk = [] then Inr (\<not> strings_Contains name [Separator])
       else case matchChunk chunk name of
           Inl e \<Rightarrow> Inl e
         | Inr (t, ok) \<Rightarrow>
             if ok \<and> (t = [] \<or> rest \<noteq> []) then filepath_Match rest t
             else if star then
               (case starLoop chunk (rest = []) name of
                  Found t' \<Rightarrow> filepath_Match rest t'
                | Bad e \<Rightarrow> Inl e
                | NotFound \<Rightarrow> checkPattern rest)
             else checkPattern rest)"
  by pat_completeness auto
termination
proof (relation "measure (\<lambda>(pattern, name). length pattern)", goal_cases)
  case 1
  show ?case by simp
next
  case (2 pattern name star x chunk rest)
  then have "scanChunk pattern = (star, chunk, rest)" by simp
  with 2 have "length rest < length pattern"
    using scanChunk_shorter by blast
  then show ?case by simp
next
  case (3 pattern name star x chunk rest)
  then have "scanChunk pattern = (star, chunk, rest)" by simp
  with 3 have "length rest < length pattern"
    using scanChunk_shorter by blast
  then show ?case by simp
qed

declare filepath_Match.simps [simp del]

subsection \<open>The ignore rules\<close>

text \<open>
  \<open>shouldIgnore\<close> (main.go): for each pattern in turn, a pattern that \<open>filepath.Match\<close>
  reports as malformed is logged and skipped; otherwise the path is ignored when the
  pattern matches its base name or is contained in the slash form of the path.
\<close>

fun shouldIgnore :: "string \<Rightarrow> string list \<Rightarrow> bool" where
  "shouldIgnore path [] = False"
| "shouldIgnore path (pattern # patterns) =
    (case filepath_Match pattern (filepath_Base path) of
       Inl err \<Rightarrow> shouldIgnore path patterns
     | Inr matched \<Rightarrow>
         if matched then True
         else if strings_Contains (filepath_ToSlash path) pattern then True
         else shouldIgnore path patterns)"

subsection \<open>unicode/utf8: valid strings\<close>

text \<open>\<open>utf8.ValidString\<close>: the string is a sequence of well-formed UTF-8 encodings.\<close>

function utf8_ValidString :: "string \<Rightarrow> bool" where
  "utf8_ValidString s =
    (if s = [] then True
     else case utf8_DecodeRuneInString s of (r, n) \<Rightarrow>
       \<not> (r = RuneError \<and> n = 1) \<and> utf8_ValidString (drop n s))"
  by pat_completeness auto
termination
proof (relation "measure length", goal_cases)
  case 1
  show ?case by simp
next
  case (2 s r n)
  then have "1 \<le> n"
    using utf8_DecodeRuneInString_width [of s] by (metis snd_conv)
  with 2 show ?case by simp
qed

declare utf8_ValidString.simps [simp del]

subsection \<open>strconv\<close>

definition digit_char :: "int \<Rightarrow> char" where
  "digit_char d = char_of (48 + d)"

text \<open>\<open>strconv.FormatUint n 10\<close>: the decimal digits of \<open>n\<close>.\<close>

function strconv_FormatUint :: "int \<Rightarrow> string" where
  "strconv_FormatUint n =
    (if n < 10 then [digit_char n]
     else strconv_FormatUint (n div 10) @ [digit_char (n mod 10)])"
  by pat_completeness auto
termination
  by (relation "measure nat") auto

declare strconv_FormatUint.simps [simp del]

definition is_digit :: "char \<Rightarrow> bool" where
  "is_digit c = (48 \<le> (of_char c :: int) \<and> (of_char c :: int) \<le> 57)"

definition digits_value :: "string \<Rightarrow> int" where
  "digits_value s = foldl (\<lambda>acc c. acc * 10 + (of_char c - 48)) 0 s"

text \<open>
  \<open>strconv.ParseUint s 10 64\<close> followed by the overflow test for \<open>uint32\<close>, as
  encoding/json applies them to a number literal: decimal digits only, value below
  \<open>2^32\<close>.
\<close>

definition strconv_ParseUint32 :: "string \<Rightarrow> 32 word option" where
  "strconv_ParseUint32 s =
    (if s \<noteq> [] \<and> list_all is_digit s \<and> digits_value s < 2 ^ 32
     then Some (word_of_int (digits_value s)) else None)"

subsection \<open>The snapshot document\<close>

text \<open>The constants of main.go. Permissions are written in octal there.\<close>

definition version :: string where
  "version = ''1.0.0''"

definition defaultPerms :: "32 word" where
  "defaultPerms = 0x1A4"

definition dirPerms :: "32 word" where
  "dirPerms = 0x1ED"

definition maxFileSize :: int where
  "maxFileSize = 100 * 1024 * 1024"

text \<open>\<open>FileInfo\<close> and \<open>ProjectSnapshot\<close>, the structs of the snapshot.\<close>

record FileInfo =
  Path :: string
  Contents :: string
  IsDir :: bool
  Mode :: "32 word"

record ProjectSnapshot =
  Version :: string
  Files :: "FileInfo list"

definition FileInfo_zero :: FileInfo where
  "FileInfo_zero = \<lparr>Path = [], Contents = [], IsDir = False, Mode = 0\<rparr>"

definition ProjectSnapshot_zero :: ProjectSnapshot where
  "ProjectSnapshot_zero = \<lparr>Version = [], Files = []\<rparr>"

subsection \<open>encoding/json on the snapshot structs\<close>

text \<open>
  A JSON document is modelled by its value: what the text denotes once parsed. A number
  carries its literal, a string its bytes after unquoting. The syntax layer of
  encoding/json (printing a value as indented text, parsing text into a value) is not
  modelled; the functions below that go through text take it as an argument.
\<close>

datatype json =
    JNull
  | JBool bool
  | JNumber string
  | JString string
  | JArray "json list"
  | JObject "(string \<times> json) list"

datatype json_error = SyntaxError | UnmarshalTypeError string string

definition utf8_replacement :: string where
  "utf8_replacement = [CHR 0xEF, CHR 0xBF, CHR 0xBD]"

text \<open>
  The encoder writes a string as valid UTF-8: every byte that does not start a
  well-formed encoding is replaced by U+FFFD.
\<close>

function json_coerce_string :: "string \<Rightarrow> string" where
  "json_coerce_string s =
    (if s = [] then []
     else case utf8_DecodeRuneInString s of (r, n) \<Rightarrow>
       if r = RuneError \<and> n = 1 then utf8_replacement @ json_coerce_string (drop 1 s)
       else take n s @ json_coerce_string (drop n s))"
  by pat_completeness auto
termination
proof (relation "measure length", goal_cases)
  case 1
  show ?case by simp
next
  case (2 s r n)
  then show ?case by simp
next
  case (3 s r n)
  then have "1 \<le> n"
    using utf8_DecodeRuneInString_width [of s] by (metis snd_conv)
  with 3 show ?case by simp
qed

declare json_coerce_string.simps [simp del]

text \<open>
  \<open>json.Marshal\<close> on the structs, by their field tags: \<open>contents\<close> and \<open>mode\<close> carry
  \<open>omitempty\<close>, so an empty string and a zero mode are left out of the object.
\<close>

definition marshal_FileInfo :: "FileInfo \<Rightarrow> json" where
  "marshal_FileInfo f =
    JObject
      ([(''path'', JString (json_coerce_string (Path f)))]
       @ (if Contents f = [] then []
          else [(''contents'', JString (json_coerce_string (Contents f)))])
       @ [(''is_dir'', JBool (IsDir f))]
       @ (if Mode f = 0 then []
          else [(''mode'', JNumber (strconv_FormatUint (uint (Mode f))))]))"

definition marshal_ProjectSnapshot :: "ProjectSnapshot \<Rightarrow> json" where
  "marshal_ProjectSnapshot s =
    JObject
      [(''version'', JString (json_coerce_string (Version s))),
       (''files'', JArray (map marshal_FileInfo (Files s)))]"

definition json_kind :: "json \<Rightarrow> string" where
  "json_kind j =
    (case j of JNull \<Rightarrow> ''null'' | JBool _ \<Rightarrow> ''bool'' | JNumber _ \<Rightarrow> ''number''
     | JString _ \<Rightarrow> ''string'' | JArray _ \<Rightarrow> ''array'' | JObject _ \<Rightarrow> ''object'')"

text \<open>
  Decoding stores into an existing Go value: \<open>null\<close> leaves it as it is, a value of the
  wrong kind is an \<open>UnmarshalTypeError\<close>.
\<close>

definition unmarshal_string :: "string \<Rightarrow> json \<Rightarrow> string \<Rightarrow> json_error + string" where
  "unmarshal_string field j old =
    (case j of JString s \<Rightarrow> Inr s | JNull \<Rightarrow> Inr old
     | _ \<Rightarrow> Inl (UnmarshalTypeError (json_kind j) field))"

definition unmarshal_bool :: "string \<Rightarrow> json \<Rightarrow> bool \<Rightarrow> json_error + bool" where
  "unmarshal_bool field j old =
    (case j of JBool b \<Rightarrow> Inr b | JNull \<Rightarrow> Inr old
     | _ \<Rightarrow> Inl (UnmarshalTypeError (json_kind j) field))"

definition unmarshal_uint32 :: "string \<Rightarrow> json \<Rightarrow> 32 word \<Rightarrow> json_error + 32 word" where
  "unmarshal_uint32 field j old =
    (case j of
       JNumber lit \<Rightarrow>
         (case strconv_ParseUint32 lit of
            Some w \<Rightarrow> Inr w
          | None \<Rightarrow> Inl (UnmarshalTypeError (''number '' @ lit) field))
     | JNull \<Rightarrow> Inr old
     | _ \<Rightarrow> Inl (UnmarshalTypeError (json_kind j) field))"

text \<open>
  A key of an object names a struct field when the two are equal under case folding.
  The field names are ASCII, so only the fold classes of ASCII letters matter: besides
  the two cases of a letter, the Kelvin sign for \<open>k\<close> and the long s for \<open>s\<close>.
\<close>

definition upper_char :: "char \<Rightarrow> char" where
  "upper_char c =
    (if 97 \<le> (of_char c :: int) \<and> (of_char c :: int) \<le> 122
     then char_of ((of_char c :: int) - 32) else c)"

fun foldName :: "string \<Rightarrow> string" where
  "foldName [] = []"
| "foldName [c] = [upper_char c]"
| "foldName [c1, c2] =
    (if c1 = CHR 0xC5 \<and> c2 = CHR 0xBF then ''S'' else [upper_char c1, upper_char c2])"
| "foldName (c1 # c2 # c3 # cs) =
    (if c1 = CHR 0xE2 \<and> c2 = CHR 0x84 \<and> c3 = CHR 0xAA then CHR ''K'' # foldName cs
     else if c1 = CHR 0xC5 \<and> c2 = CHR 0xBF then CHR ''S'' # foldName (c3 # cs)
     else upper_char c1 # foldName (c2 # c3 # cs))"

definition unmarshal_FileInfo_field :: "string \<Rightarrow> json \<Rightarrow> FileInfo \<Rightarrow> json_error + FileInfo" where
  "unmarshal_FileInfo_field key j f =
    (let k = foldName key in
     if k = foldName ''path'' then
       (case unmarshal_string ''FileInfo.path'' j (Path f) of
          Inl e \<Rightarrow> Inl e | Inr v \<Rightarrow> Inr (f\<lparr>Path := v\<rparr>))
     else if k = foldName ''contents'' then
       (case unmarshal_string ''FileInfo.contents'' j (Contents f) of
          Inl e \<Rightarrow> Inl e | Inr v \<Rightarrow> Inr (f\<lparr>Contents := v\<rparr>))
     else if k = foldName ''is_dir'' then
       (case unmarshal_bool ''FileInfo.is_dir'' j (IsDir f) of
          Inl e \<Rightarrow> Inl e | Inr v \<Rightarrow> Inr (f\<lparr>IsDir := v\<rparr>))
     else if k = foldName ''mode'' then
       (case unmarshal_uint32 ''FileInfo.mode'' j (Mode f) of
          Inl e \<Rightarrow> Inl e | Inr v \<Rightarrow> Inr (f\<lparr>Mode := v\<rparr>))
     else Inr f)"

fun unmarshal_FileInfo_fields :: "(string \<times> json) list \<Rightarrow> FileInfo \<Rightarrow> json_error + FileInfo" where
  "unmarshal_FileInfo_fields [] f = Inr f"
| "unmarshal_FileInfo_fields ((key, j) # kvs) f =
    (case unmarshal_FileInfo_field key j f of
       Inl e \<Rightarrow> Inl e
     | Inr f1 \<Rightarrow> unmarshal_FileInfo_fields kvs f1)"

definition unmarshal_FileInfo :: "json \<Rightarrow> FileInfo \<Rightarrow> json_error + FileInfo" where
  "unmarshal_FileInfo j f =
    (case j of
       JObject kvs \<Rightarrow> unmarshal_FileInfo_fields kvs f
     | JNull \<Rightarrow> Inr f
     | _ \<Rightarrow> Inl (UnmarshalTypeError (json_kind j) ''FileInfo''))"

text \<open>
  An array is decoded into the slice element by element; an element the slice already
  has is decoded into, a new one starts from the zero value.
\<close>

fun unmarshal_Files :: "json list \<Rightarrow> FileInfo list \<Rightarrow> json_error + FileInfo list" where
  "unmarshal_Files [] old = Inr []"
| "unmarshal_Files (j # js) old =
    (case unmarshal_FileInfo j (case old of [] \<Rightarrow> FileInfo_zero | f # _ \<Rightarrow> f) of
       Inl e \<Rightarrow> Inl e
     | Inr f1 \<Rightarrow>
        (case unmarshal_Files js (tl old) of
           Inl e \<Rightarrow> Inl e
         | Inr fs \<Rightarrow> Inr (f1 # fs)))"

definition unmarshal_ProjectSnapshot_field ::
  "string \<Rightarrow> json \<Rightarrow> ProjectSnapshot \<Rightarrow> json_error + ProjectSnapshot" where
  "unmarshal_ProjectSnapshot_field key j s =
    (let k = foldName key in
     if k = foldName ''version'' then
       (case unmarshal_string ''ProjectSnapshot.version'' j (Version s) of
          Inl e \<Rightarrow> Inl e | Inr v \<Rightarrow> Inr (s\<lparr>Version := v\<rparr>))
     else if k = foldName ''files'' then
       (case j of
          JArray js \<Rightarrow>
            (case unmarshal_Files js (Files s) of
               Inl e \<Rightarrow> Inl e | Inr fs \<Rightarrow> Inr (s\<lparr>Files := fs\<rparr>))
        | JNull \<Rightarrow> Inr (s\<lparr>Files := []\<rparr>)
        | _ \<Rightarrow> Inl (UnmarshalTypeError (json_kind j) ''ProjectSnapshot.files''))
     else Inr s)"

fun unmarshal_ProjectSnapshot_fields ::
  "(string \<times> json) list \<Rightarrow> ProjectSnapshot \<Rightarrow> json_error + ProjectSnapshot" where
  "unmarshal_ProjectSnapshot_fields [] s = Inr s"
| "unmarshal_ProjectSnapshot_fields ((key, j) # kvs) s =
    (case unmarshal_ProjectSnapshot_field key j s of
       Inl e \<Rightarrow> Inl e
     | Inr s1 \<Rightarrow> unmarshal_ProjectSnapshot_fields kvs s1)"

definition unmarshal_ProjectSnapshot :: "json \<Rightarrow> ProjectSnapshot \<Rightarrow> json_error + ProjectSnapshot" where
  "unmarshal_ProjectSnapshot j s =
    (case j of
       JObject kvs \<Rightarrow> unmarshal_ProjectSnapshot_fields kvs s
     | JNull \<Rightarrow> Inr s
     | _ \<Rightarrow> Inl (UnmarshalTypeError (json_kind j) ''ProjectSnapshot''))"

text \<open>
  \<open>json.MarshalIndent\<close> and \<open>json.Unmarshal\<close> as the program calls them, through the
  syntax layer: \<open>print\<close> writes a value as text, \<open>parse\<close> reads text (\<open>None\<close> for text
  that is not JSON).
\<close>

type_synonym json_printer = "json \<Rightarrow> json_error + string"
type_synonym json_parser = "string \<Rightarrow> json option"

definition json_MarshalIndent :: "json_printer \<Rightarrow> ProjectSnapshot \<Rightarrow> json_error + string" where
  "json_MarshalIndent print s = print (marshal_ProjectSnapshot s)"

definition json_Unmarshal :: "json_parser \<Rightarrow> string \<Rightarrow> ProjectSnapshot \<Rightarrow> json_error + ProjectSnapshot" where
  "json_Unmarshal parse data s =
    (case parse data of
       None \<Rightarrow> Inl SyntaxError
     | Some j \<Rightarrow> unmarshal_ProjectSnapshot j s)"


declare foldName.simps [simp del]

subsection \<open>path/filepath: Clean, Join, Dir, Rel\<close>

text \<open>The elements of a path: the pieces between separators.\<close>

fun splitSep :: "string \<Rightarrow> string list" where
  "splitSep [] = [[]]"
| "splitSep (c # cs) =
    (if c = Separator then [] # splitSep cs
     else (case splitSep cs of [] \<Rightarrow> [[c]] | e # es \<Rightarrow> (c # e) # es))"

fun join_elems :: "string list \<Rightarrow> string" where
  "join_elems [] = []"
| "join_elems [e] = e"
| "join_elems (e # es) = e @ [Separator] @ join_elems es"

text \<open>
  \<open>filepath.Clean\<close>: empty and \<open>.\<close> elements are dropped, a \<open>..\<close> element removes the
  element before it; at the root it is dropped, at the start of a relative path it is
  kept. \<open>out\<close> holds the elements written so far, the last one first.
\<close>

fun clean_elems :: "bool \<Rightarrow> string list \<Rightarrow> string list \<Rightarrow> string list" where
  "clean_elems rooted out [] = rev out"
| "clean_elems rooted out (e # es) =
    (if e = [] \<or> e = ''.'' then clean_elems rooted out es
     else if e = ''..'' then
       (if out \<noteq> [] \<and> hd out \<noteq> ''..'' then clean_elems rooted (tl out) es
        else if rooted then clean_elems rooted out es
        else clean_elems rooted (''..'' # out) es)
     else clean_elems rooted (e # out) es)"

definition filepath_Clean :: "string \<Rightarrow> string" where
  "filepath_Clean path =
    (if path = [] then ''.''
     else let rooted = (hd path = Separator);
              out = clean_elems rooted [] (splitSep path)
          in if rooted then Separator # join_elems out
             else if out = [] then ''.'' else join_elems out)"

text \<open>\<open>filepath.Join\<close> of two elements: empty elements are ignored, the result is cleaned.\<close>

definition filepath_Join :: "string \<Rightarrow> string \<Rightarrow> string" where
  "filepath_Join a b =
    (if a \<noteq> [] then filepath_Clean (a @ [Separator] @ b)
     else if b \<noteq> [] then filepath_Clean b
     else [])"

text \<open>\<open>filepath.Dir\<close>: all but the last element of the path, cleaned.\<close>

definition filepath_Dir :: "string \<Rightarrow> string" where
  "filepath_Dir path =
    filepath_Clean (rev (dropWhile (\<lambda>c. c \<noteq> Separator) (rev path)))"

text \<open>
  \<open>filepath.Rel basepath targpath\<close>. Both paths are cleaned; equal paths give \<open>.\<close>.
  The model covers the targets that lie below the base, which is where every path is that
  \<open>filepath.WalkDir\<close> hands to its function: the result is the rest of the target. For
  any other target the model reports an error (Go reports one when one path is rooted
  and the other is not, and may otherwise return a path that climbs with \<open>..\<close>).
\<close>

definition filepath_Rel :: "string \<Rightarrow> string \<Rightarrow> string + string" where
  "filepath_Rel basepath targpath =
    (let base = filepath_Clean basepath;
         targ = filepath_Clean targpath;
         below = (if base = ''.'' then []
                  else if base = [Separator] then base
                  else base @ [Separator])
     in if targ = base then Inr ''.''
        else if strings_HasPrefix targ below
                \<and> (base = ''.'' \<longrightarrow> hd targ \<noteq> Separator) then
          Inr (drop (length below) targ)
        else Inl (''Rel: can't make '' @ targpath @ '' relative to '' @ basepath))"

subsection \<open>The file system\<close>

text \<open>
  The file system is a tree. A file has its permission bits, the size \<open>lstat\<close> reports
  and the bytes a read returns (equal to the size for a regular file); a directory has
  its permission bits and its entries by name, in the order \<open>ReadDir\<close> lists them
  (sorted by name). Permission bits are recorded, not enforced, and the umask is zero.
  Instead, a system call can be made to fail: \<open>faults\<close> gives the error of a call on a
  path, if it shall fail, whatever the tree holds. A failing system call changes nothing.
  Paths are resolved from the root of the tree, which is also the working directory;
  there are no symbolic links, so \<open>lstat\<close> and \<open>stat\<close> find the same node.
\<close>

datatype errno = ENOENT | EACCES | EEXIST | ENOTDIR | EISDIR | EIO

datatype node =
    File "32 word" int string
  | Dir "32 word" "(string \<times> node) list"

datatype syscall = SysStat | SysLstat | SysOpen | SysReadDir | SysMkdir | SysWrite

record filesys =
  root :: node
  faults :: "syscall \<Rightarrow> string \<Rightarrow> errno option"

definition ModeDir :: "32 word" where
  "ModeDir = 0x80000000"

definition ModePerm :: "32 word" where
  "ModePerm = 0x1FF"

definition FileMode_Perm :: "32 word \<Rightarrow> 32 word" where
  "FileMode_Perm m = m AND ModePerm"

fun isDir :: "node \<Rightarrow> bool" where
  "isDir (File perm sz data) = False"
| "isDir (Dir perm ents) = True"

fun node_Mode :: "node \<Rightarrow> 32 word" where
  "node_Mode (File perm sz data) = perm"
| "node_Mode (Dir perm ents) = perm OR ModeDir"

fun node_Size :: "node \<Rightarrow> int" where
  "node_Size (File perm sz data) = sz"
| "node_Size (Dir perm ents) = 0"

text \<open>
  Looking a node up by the names on the way to it from the root.
\<close>

fun lookup :: "node \<Rightarrow> string list \<Rightarrow> errno + node" where
  "lookup n [] = Inr n"
| "lookup (File perm sz data) (e # es) = Inl ENOTDIR"
| "lookup (Dir perm ents) (e # es) =
    (case map_of ents e of None \<Rightarrow> Inl ENOENT | Some c \<Rightarrow> lookup c es)"

text \<open>
  Resolving a path as the kernel does, element by element against the tree: every
  element, also an empty one, \<open>.\<close> and \<open>..\<close>, is taken in a directory that exists, so a
  missing element on the way is \<open>ENOENT\<close> even where \<open>..\<close> follows it, and a file on the
  way, or before a trailing separator, is \<open>ENOTDIR\<close>. Empty and \<open>.\<close> elements stay in
  the directory and \<open>..\<close> goes to its parent (at the root it stays). \<open>stack\<close> holds the
  names from the root to the node reached, the last one first; the result is the names
  of the node the path leads to, whose last name has not been looked up.
\<close>

fun resolve :: "node \<Rightarrow> string list \<Rightarrow> string list \<Rightarrow> errno + string list" where
  "resolve r stack [] = Inr (rev stack)"
| "resolve r stack (e # es) =
    (case lookup r (rev stack) of
       Inl err \<Rightarrow> Inl err
     | Inr (File perm sz data) \<Rightarrow> Inl ENOTDIR
     | Inr (Dir perm ents) \<Rightarrow>
         if e = [] \<or> e = ''.'' then resolve r stack es
         else if e = ''..'' then resolve r (tl stack) es
         else resolve r (e # stack) es)"

definition namei :: "filesys \<Rightarrow> string \<Rightarrow> errno + node" where
  "namei fs name =
    (case resolve (root fs) [] (splitSep name) of
       Inl e \<Rightarrow> Inl e
     | Inr names \<Rightarrow> lookup (root fs) names)"

definition syscall_fault :: "filesys \<Rightarrow> syscall \<Rightarrow> string \<Rightarrow> errno option" where
  "syscall_fault fs call name = (if name = [] then Some ENOENT else faults fs call name)"

definition os_Stat :: "filesys \<Rightarrow> string \<Rightarrow> errno + node" where
  "os_Stat fs name =
    (case syscall_fault fs SysStat name of
       Some e \<Rightarrow> Inl e
     | None \<Rightarrow> namei fs name)"

definition os_Lstat :: "filesys \<Rightarrow> string \<Rightarrow> errno + node" where
  "os_Lstat fs name =
    (case syscall_fault fs SysLstat name of
       Some e \<Rightarrow> Inl e
     | None \<Rightarrow> namei fs name)"

definition os_IsNotExist :: "errno \<Rightarrow> bool" where
  "os_IsNotExist e = (e = ENOENT)"

definition os_ReadFile :: "filesys \<Rightarrow> string \<Rightarrow> errno + string" where
  "os_ReadFile fs name =
    (case syscall_fault fs SysOpen name of
       Some e \<Rightarrow> Inl e
     | None \<Rightarrow>
        (case namei fs name of
           Inl e \<Rightarrow> Inl e
         | Inr (File perm sz data) \<Rightarrow> Inr data
         | Inr (Dir perm ents) \<Rightarrow> Inl EISDIR))"

definition insert_entry :: "string \<Rightarrow> node \<Rightarrow> (string \<times> node) list \<Rightarrow> (string \<times> node) list" where
  "insert_entry name n ents = insort_key fst (name, n) ents"

definition update_entry :: "string \<Rightarrow> node \<Rightarrow> (string \<times> node) list \<Rightarrow> (string \<times> node) list" where
  "update_entry name n ents = map (\<lambda>(k, v). if k = name then (k, n) else (k, v)) ents"

text \<open>
  Putting the node \<open>c\<close> under the name \<open>name\<close> into the directory with the names \<open>names\<close>,
  in place of the entry of that name if there is one.
\<close>

fun set_child :: "node \<Rightarrow> string list \<Rightarrow> string \<Rightarrow> node \<Rightarrow> node" where
  "set_child (File perm sz data) names name c = File perm sz data"
| "set_child (Dir perm ents) [] name c =
    (case map_of ents name of
       None \<Rightarrow> Dir perm (insert_entry name c ents)
     | Some old \<Rightarrow> Dir perm (update_entry name c ents))"
| "set_child (Dir perm ents) (e # es) name c =
    (case map_of ents e of
       None \<Rightarrow> Dir perm ents
     | Some d \<Rightarrow> Dir perm (update_entry e (set_child d es name c) ents))"

text \<open>
  A call that creates a node resolves the path up to its last element, which it takes
  apart: the elements before it, the last element, and whether separators follow it.
  A path of separators only has no last element.
\<close>

definition split_final :: "string \<Rightarrow> (string list \<times> string \<times> bool) option" where
  "split_final name =
    (let elems = splitSep name;
         trimmed = rev (dropWhile (\<lambda>e. e = []) (rev elems))
     in if trimmed = [] then None
        else Some (butlast trimmed, last trimmed, length trimmed < length elems))"

text \<open>
  \<open>os.Mkdir\<close>: the parent must be a directory that exists and the last element must
  not exist in it (\<open>.\<close> and \<open>..\<close> always do); the directory is created with the
  permission bits given.
\<close>

definition os_Mkdir :: "filesys \<Rightarrow> string \<Rightarrow> 32 word \<Rightarrow> errno + filesys" where
  "os_Mkdir fs name perm =
    (case syscall_fault fs SysMkdir name of
       Some e \<Rightarrow> Inl e
     | None \<Rightarrow>
        (case split_final name of
           None \<Rightarrow> Inl EEXIST
         | Some (parent, final, slash) \<Rightarrow>
            (case resolve (root fs) [] parent of
               Inl e \<Rightarrow> Inl e
             | Inr names \<Rightarrow>
                (case lookup (root fs) names of
                   Inl e \<Rightarrow> Inl e
                 | Inr (File dperm sz data) \<Rightarrow> Inl ENOTDIR
                 | Inr (Dir dperm ents) \<Rightarrow>
                     if final = ''.'' \<or> final = ''..'' \<or> map_of ents final \<noteq> None then Inl EEXIST
                     else Inr (fs\<lparr>root :=
                       set_child (root fs) names final (Dir (FileMode_Perm perm) [])\<rparr>)))))"

text \<open>
  \<open>os.WriteFile\<close> opens the file with \<open>O_WRONLY|O_CREATE|O_TRUNC\<close>: the file is
  created with the permission bits given if it does not exist, and truncated otherwise,
  keeping its mode; its directory must exist; a directory cannot be opened for writing,
  and a path with a trailing separator names one.
\<close>

definition os_WriteFile :: "filesys \<Rightarrow> string \<Rightarrow> string \<Rightarrow> 32 word \<Rightarrow> errno + filesys" where
  "os_WriteFile fs name data perm =
    (case syscall_fault fs SysWrite name of
       Some e \<Rightarrow> Inl e
     | None \<Rightarrow>
        (case split_final name of
           None \<Rightarrow> Inl EISDIR
         | Some (parent, final, slash) \<Rightarrow>
            (case resolve (root fs) [] parent of
               Inl e \<Rightarrow> Inl e
             | Inr names \<Rightarrow>
                (case lookup (root fs) names of
                   Inl e \<Rightarrow> Inl e
                 | Inr (File dperm sz old) \<Rightarrow> Inl ENOTDIR
                 | Inr (Dir dperm ents) \<Rightarrow>
                     if final = ''.'' \<or> final = ''..'' then Inl EISDIR
                     else
                       (case map_of ents final of
                          Some (Dir cperm cents) \<Rightarrow> Inl EISDIR
                        | Some (File cperm sz old) \<Rightarrow>
                            if slash then Inl ENOTDIR
                            else Inr (fs\<lparr>root := set_child (root fs) names final
                              (File cperm (int (length data)) data)\<rparr>)
                        | None \<Rightarrow>
                            if slash then Inl EISDIR
                            else Inr (fs\<lparr>root := set_child (root fs) names final
                              (File (FileMode_Perm perm) (int (length data)) data)\<rparr>))))))"

text \<open>
  \<open>os.MkdirAll\<close>, as the library writes it. If \<open>os.Stat\<close> finds the path, it is done:
  with success on a directory, with \<open>ENOTDIR\<close> on a file. Otherwise the parent is the
  path without its trailing separators, its last element and the separator before that;
  if it is not empty, it is made first, in the same way; then the directory is made with
  \<open>os.Mkdir\<close>, and where that fails while \<open>os.Lstat\<close> finds a directory at the path (as
  for \<open>a/.\<close> and \<open>a/..\<close>), that is success. The directories made before a failure stay.
\<close>

definition mkdirAll_parent :: "string \<Rightarrow> string" where
  "mkdirAll_parent path =
    butlast (rev (dropWhile (\<lambda>c. c \<noteq> Separator)
      (dropWhile (\<lambda>c. c = Separator) (rev path))))"

lemma mkdirAll_parent_shorter:
  "mkdirAll_parent path \<noteq> [] \<Longrightarrow> length (mkdirAll_parent path) < length path"
proof -
  assume nonempty: "mkdirAll_parent path \<noteq> []"
  let ?p = "dropWhile (\<lambda>c. c \<noteq> Separator) (dropWhile (\<lambda>c. c = Separator) (rev path))"
  have "length ?p \<le> length (dropWhile (\<lambda>c. c = Separator) (rev path))"
    by (rule length_dropWhile_le)
  also have "\<dots> \<le> length (rev path)"
    by (rule length_dropWhile_le)
  finally have le: "length ?p \<le> length path"
    by simp
  have "?p \<noteq> []"
  proof
    assume "?p = []"
    then have "mkdirAll_parent path = []"
      by (simp only: mkdirAll_parent_def rev.simps butlast.simps)
    with nonempty show False
      by simp
  qed
  moreover have "xs \<noteq> [] \<Longrightarrow> length (butlast (rev xs)) < length xs" for xs :: string
    by simp
  ultimately have "length (butlast (rev ?p)) < length ?p"
    by blast
  then have "length (butlast (rev ?p)) < length path"
    using le by (rule less_le_trans)
  then show ?thesis
    by (simp only: mkdirAll_parent_def)
qed

function os_MkdirAll :: "filesys \<Rightarrow> string \<Rightarrow> 32 word \<Rightarrow> errno option \<times> filesys" where
  "os_MkdirAll fs path perm =
    (case os_Stat fs path of
       Inr dir \<Rightarrow> if isDir dir then (None, fs) else (Some ENOTDIR, fs)
     | Inl err \<Rightarrow>
        (case (if mkdirAll_parent path \<noteq> [] then os_MkdirAll fs (mkdirAll_parent path) perm
               else (None, fs)) of
           (Some e, fs1) \<Rightarrow> (Some e, fs1)
         | (None, fs1) \<Rightarrow>
            (case os_Mkdir fs1 path perm of
               Inr fs2 \<Rightarrow> (None, fs2)
             | Inl e \<Rightarrow>
                (case os_Lstat fs1 path of
                   Inr d \<Rightarrow> if isDir d then (None, fs1) else (Some e, fs1)
                 | Inl e1 \<Rightarrow> (Some e, fs1)))))"
  by pat_completeness auto

termination
  by (relation "measure (\<lambda>(fs, path, perm). length path)")
    (auto simp: mkdirAll_parent_shorter)

declare os_MkdirAll.simps [simp del]

subsection \<open>strings.TrimSpace and bufio.Scanner\<close>

text \<open>
  The UTF-8 encodings of the runes Unicode classes as white space, which
  \<open>strings.TrimSpace\<close> removes from both ends.
\<close>

definition space_encodings :: "string list" where
  "space_encodings =
    [[CHR 0x09], [CHR 0x0A], [CHR 0x0B], [CHR 0x0C], [CHR 0x0D], [CHR 0x20],
     [CHR 0xC2, CHR 0x85], [CHR 0xC2, CHR 0xA0], [CHR 0xE1, CHR 0x9A, CHR 0x80],
     [CHR 0xE2, CHR 0x80, CHR 0x80], [CHR 0xE2, CHR 0x80, CHR 0x81],
     [CHR 0xE2, CHR 0x80, CHR 0x82], [CHR 0xE2, CHR 0x80, CHR 0x83],
     [CHR 0xE2, CHR 0x80, CHR 0x84], [CHR 0xE2, CHR 0x80, CHR 0x85],
     [CHR 0xE2, CHR 0x80, CHR 0x86], [CHR 0xE2, CHR 0x80, CHR 0x87],
     [CHR 0xE2, CHR 0x80, CHR 0x88], [CHR 0xE2, CHR 0x80, CHR 0x89],
     [CHR 0xE2, CHR 0x80, CHR 0x8A], [CHR 0xE2, CHR 0x80, CHR 0xA8],
     [CHR 0xE2, CHR 0x80, CHR 0xA9], [CHR 0xE2, CHR 0x80, CHR 0xAF],
     [CHR 0xE2, CHR 0x81, CHR 0x9F], [CHR 0xE3, CHR 0x80, CHR 0x80]]"

function trim_left :: "string list \<Rightarrow> string \<Rightarrow> string" where
  "trim_left encs s =
    (case find (\<lambda>w. w \<noteq> [] \<and> strings_HasPrefix s w) encs of
       None \<Rightarrow> s
     | Some w \<Rightarrow> trim_left encs (drop (length w) s))"
  by pat_completeness auto
termination
proof (relation "measure (\<lambda>(encs, s). length s)", goal_cases)
  case 1
  show ?case by simp
next
  case (2 encs s w)
  then have "w \<noteq> [] \<and> strings_HasPrefix s w"
    by (auto simp: find_Some_iff)
  then have "length s - length w < length s"
    by (cases w) (auto simp: strings_HasPrefix_def)
  then show ?case by simp
qed

declare trim_left.simps [simp del]

definition strings_TrimSpace :: "string \<Rightarrow> string" where
  "strings_TrimSpace s =
    rev (trim_left (map rev space_encodings) (rev (trim_left space_encodings s)))"

text \<open>
  \<open>bufio.Scanner\<close> with the default split function: the lines of the data without
  their line ends (a final empty line is not a line); scanning stops at a line that does
  not fit the buffer of \<open>MaxScanTokenSize\<close> bytes.
\<close>

fun split_lines :: "string \<Rightarrow> string list" where
  "split_lines [] = []"
| "split_lines (c # cs) =
    (if c = CHR 0x0A then [] # split_lines cs
     else (case split_lines cs of [] \<Rightarrow> [[c]] | l # ls \<Rightarrow> (c # l) # ls))"

definition dropCR :: "string \<Rightarrow> string" where
  "dropCR line = (if line \<noteq> [] \<and> last line = CHR 0x0D then butlast line else line)"

definition MaxScanTokenSize :: nat where
  "MaxScanTokenSize = 64 * 1024"

definition scan_lines :: "string \<Rightarrow> string list" where
  "scan_lines data =
    map dropCR (takeWhile (\<lambda>l. length l < MaxScanTokenSize) (split_lines data))"

subsection \<open>The program: errors\<close>

text \<open>
  The errors the program returns, one constructor for each message; \<open>SkipDir\<close> is
  \<open>filepath.SkipDir\<close>, and \<open>ErrNilDirEntry\<close> stands for the panic of a call on a nil
  \<open>DirEntry\<close>.
\<close>

datatype error =
    SkipDir
  | ErrNilDirEntry
  | ErrPathEmpty
  | ErrPathNotExist string
  | ErrPathAccess string errno
  | ErrInvalidSource error
  | ErrStatSource errno
  | ErrSourceNotDir string
  | ErrAccessing string errno
  | ErrRelPath string string
  | ErrFileInfo string errno
  | ErrReadFile string errno
  | ErrMarshal json_error
  | ErrWriteOutput errno
  | ErrInvalidConfig error
  | ErrReadConfig errno
  | ErrParseConfig json_error
  | ErrDestinationExists string
  | ErrCreateDestination errno
  | ErrCreateDirectory string errno
  | ErrCreateParent string errno
  | ErrWriteFile string errno

subsection \<open>filepath.WalkDir\<close>

text \<open>
  \<open>walkDir\<close> calls \<open>fn\<close> on the node, then, for a directory, reads its entries and
  walks them in order. \<open>SkipDir\<close> from \<open>fn\<close> on a directory skips the directory; from a
  file it ends the walk of the remaining entries of its directory. When the entries
  cannot be read, \<open>fn\<close> is called a second time with the error, and if it returns
  none the walk goes on with the entries read before the error, which the model takes
  to be none. The state \<open>st\<close> is what the function \<open>fn\<close> keeps between calls.
\<close>

type_synonym 'st walkFunc = "string \<Rightarrow> node option \<Rightarrow> errno option \<Rightarrow> 'st \<Rightarrow> error option \<times> 'st"

fun walkDir :: "filesys \<Rightarrow> 'st walkFunc \<Rightarrow> string \<Rightarrow> node \<Rightarrow> 'st \<Rightarrow> error option \<times> 'st"
  and walkDir_entries ::
    "filesys \<Rightarrow> 'st walkFunc \<Rightarrow> string \<Rightarrow> (string \<times> node) list \<Rightarrow> 'st \<Rightarrow> error option \<times> 'st"
where
  "walkDir fs fn path (File perm sz data) st = fn path (Some (File perm sz data)) None st"
| "walkDir fs fn path (Dir perm ents) st =
    (case fn path (Some (Dir perm ents)) None st of
       (Some err, st1) \<Rightarrow> (if err = SkipDir then (None, st1) else (Some err, st1))
     | (None, st1) \<Rightarrow>
        (case syscall_fault fs SysReadDir path of
           Some e \<Rightarrow>
            (case fn path (Some (Dir perm ents)) (Some e) st1 of
               (Some err, st2) \<Rightarrow> (if err = SkipDir then (None, st2) else (Some err, st2))
             | (None, st2) \<Rightarrow> (None, st2))
         | None \<Rightarrow> walkDir_entries fs fn path ents st1))"
| "walkDir_entries fs fn path [] st = (None, st)"
| "walkDir_entries fs fn path ((name, d1) # rest) st =
    (case walkDir fs fn (filepath_Join path name) d1 st of
       (Some err, st1) \<Rightarrow> (if err = SkipDir then (None, st1) else (Some err, st1))
     | (None, st1) \<Rightarrow> walkDir_entries fs fn path rest st1)"

definition filepath_WalkDir :: "filesys \<Rightarrow> string \<Rightarrow> 'st walkFunc \<Rightarrow> 'st \<Rightarrow> error option \<times> 'st" where
  "filepath_WalkDir fs root_path fn st =
    (case (case os_Lstat fs root_path of
             Inl e \<Rightarrow> fn root_path None (Some e) st
           | Inr info \<Rightarrow> walkDir fs fn root_path info st) of
       (Some err, st1) \<Rightarrow> (if err = SkipDir then (None, st1) else (Some err, st1))
     | (None, st1) \<Rightarrow> (None, st1))"

text \<open>\<open>DirEntry.Info\<close> of an entry that \<open>ReadDir\<close> listed: an \<open>lstat\<close> of its path.\<close>

definition DirEntry_Info :: "filesys \<Rightarrow> string \<Rightarrow> node \<Rightarrow> errno + node" where
  "DirEntry_Info fs path d =
    (case syscall_fault fs SysLstat path of Some e \<Rightarrow> Inl e | None \<Rightarrow> Inr d)"

subsection \<open>The program: capture\<close>

text \<open>
  \<open>loadGitignore\<close>: the pattern \<open>.git\<close>, then the lines of \<open>.gitignore\<close> in the source
  directory, trimmed, without the empty ones and the comments. A file that cannot be
  opened or read gives the pattern \<open>.git\<close> alone.
\<close>

definition loadGitignore :: "filesys \<Rightarrow> string \<Rightarrow> string list" where
  "loadGitignore fs source =
    (let patterns = [''.git''];
         gitignorePath = filepath_Join source ''.gitignore''
     in case os_ReadFile fs gitignorePath of
          Inl err \<Rightarrow> patterns
        | Inr data \<Rightarrow>
            patterns @ filter (\<lambda>line. \<not> (line = [] \<or> strings_HasPrefix line ''#''))
                         (map strings_TrimSpace (scan_lines data)))"

definition validatePath :: "filesys \<Rightarrow> string \<Rightarrow> bool \<Rightarrow> error option" where
  "validatePath fs path mustExist =
    (if path = [] then Some ErrPathEmpty
     else if mustExist then
       (case os_Stat fs path of
          Inl err \<Rightarrow>
            if os_IsNotExist err then Some (ErrPathNotExist path)
            else Some (ErrPathAccess path err)
        | Inr info \<Rightarrow> None)
     else None)"

text \<open>
  The function \<open>cloneProject\<close> hands to \<open>filepath.WalkDir\<close>. Its state is the snapshot
  built so far and the count of files. Logging has no effect on the result and is left
  out.
\<close>

definition cloneProject_walk ::
  "filesys \<Rightarrow> string \<Rightarrow> string list \<Rightarrow> (ProjectSnapshot \<times> int) walkFunc" where
  "cloneProject_walk fs source patterns path d err st =
    (case err of
       Some e \<Rightarrow> (Some (ErrAccessing path e), st)
     | None \<Rightarrow>
        (case filepath_Rel source path of
           Inl msg \<Rightarrow> (Some (ErrRelPath path msg), st)
         | Inr relPath \<Rightarrow>
            if relPath = ''.'' then (None, st)
            else
              (case d of
                 None \<Rightarrow> (Some ErrNilDirEntry, st)
               | Some n \<Rightarrow>
                  if shouldIgnore relPath patterns then
                    (if isDir n then (Some SkipDir, st) else (None, st))
                  else
                    (case DirEntry_Info fs path n of
                       Inl e \<Rightarrow> (Some (ErrFileInfo path e), st)
                     | Inr info \<Rightarrow>
                        let fileInfo = \<lparr>Path = filepath_ToSlash relPath, Contents = [],
                                         IsDir = isDir n,
                                         Mode = FileMode_Perm (node_Mode info)\<rparr>
                        in if \<not> isDir n then
                             (if node_Size info > maxFileSize then (None, st)
                              else
                                (case os_ReadFile fs path of
                                   Inl e \<Rightarrow> (Some (ErrReadFile path e), st)
                                 | Inr data \<Rightarrow>
                                    (None,
                                     ((fst st)\<lparr>Files := Files (fst st)
                                          @ [fileInfo\<lparr>Contents := data\<rparr>]\<rparr>,
                                      snd st + 1))))
                           else
                             (None,
                              ((fst st)\<lparr>Files := Files (fst st) @ [fileInfo]\<rparr>,
                               snd st))))))"

text \<open>
  \<open>cloneProject\<close>. \<open>ignorePatterns\<close> is the global variable set from the command line;
  the result is the error, if any, and the file system afterwards.
\<close>

definition cloneProject ::
  "json_printer \<Rightarrow> string list \<Rightarrow> filesys \<Rightarrow> string \<Rightarrow> string \<Rightarrow> error option \<times> filesys" where
  "cloneProject print ignorePatterns fs source outputFile =
    (case validatePath fs source True of
       Some err \<Rightarrow> (Some (ErrInvalidSource err), fs)
     | None \<Rightarrow>
    (case os_Stat fs source of
       Inl e \<Rightarrow> (Some (ErrStatSource e), fs)
     | Inr sourceInfo \<Rightarrow>
    if \<not> isDir sourceInfo then (Some (ErrSourceNotDir source), fs)
    else
      let patterns = loadGitignore fs source @ ignorePatterns;
          snapshot = \<lparr>Version = version, Files = []\<rparr>
      in
    (case filepath_WalkDir fs source (cloneProject_walk fs source patterns) (snapshot, 0) of
       (Some err, st) \<Rightarrow> (Some err, fs)
     | (None, st) \<Rightarrow>
    (case json_MarshalIndent print (fst st) of
       Inl e \<Rightarrow> (Some (ErrMarshal e), fs)
     | Inr jsonData \<Rightarrow>
    (case os_WriteFile fs outputFile jsonData defaultPerms of
       Inl e \<Rightarrow> (Some (ErrWriteOutput e), fs)
     | Inr fs1 \<Rightarrow> (None, fs1))))))"

subsection \<open>The program: restore\<close>

text \<open>The loop of \<open>restoreProject\<close> over the entries of the snapshot.\<close>

fun restoreFiles :: "filesys \<Rightarrow> string \<Rightarrow> FileInfo list \<Rightarrow> error option \<times> filesys" where
  "restoreFiles fs destination [] = (None, fs)"
| "restoreFiles fs destination (file # files) =
    (let path = filepath_Join destination (filepath_FromSlash (Path file)) in
     if IsDir file then
       (case os_MkdirAll fs path (Mode file) of
          (Some e, fs1) \<Rightarrow> (Some (ErrCreateDirectory (Path file) e), fs1)
        | (None, fs1) \<Rightarrow> restoreFiles fs1 destination files)
     else
       (let parentDir = filepath_Dir path in
        case os_MkdirAll fs parentDir dirPerms of
          (Some e, fs1) \<Rightarrow> (Some (ErrCreateParent (Path file) e), fs1)
        | (None, fs1) \<Rightarrow>
           (let mode = (if Mode file = 0 then defaultPerms else Mode file) in
            case os_WriteFile fs1 path (Contents file) mode of
              Inl e \<Rightarrow> (Some (ErrWriteFile (Path file) e), fs1)
            | Inr fs2 \<Rightarrow> restoreFiles fs2 destination files)))"

definition restoreProject ::
  "json_parser \<Rightarrow> filesys \<Rightarrow> string \<Rightarrow> string \<Rightarrow> error option \<times> filesys" where
  "restoreProject parse fs configFile destination =
    (case validatePath fs configFile True of
       Some err \<Rightarrow> (Some (ErrInvalidConfig err), fs)
     | None \<Rightarrow>
    (case os_ReadFile fs configFile of
       Inl e \<Rightarrow> (Some (ErrReadConfig e), fs)
     | Inr data \<Rightarrow>
    (case json_Unmarshal parse data ProjectSnapshot_zero of
       Inl e \<Rightarrow> (Some (ErrParseConfig e), fs)
     | Inr snapshot \<Rightarrow>
    (case os_Stat fs destination of
       Inr info \<Rightarrow> (Some (ErrDestinationExists destination), fs)
     | Inl e \<Rightarrow>
    (case os_MkdirAll fs destination dirPerms of
       (Some e, fs1) \<Rightarrow> (Some (ErrCreateDestination e), fs1)
     | (None, fs1) \<Rightarrow> restoreFiles fs1 destination (Files snapshot))))))"

subsection \<open>Example inputs\<close>

text \<open>Documents and file systems on which the properties below are tried.\<close>

definition example_document :: json where
  "example_document =
    JObject [(''version'', JString ''1.0.0''),
             (''files'', JArray [JObject [(''path'', JString ''file.txt''),
                                          (''contents'', JString ''content''),
                                          (''is_dir'', JBool False),
                                          (''mode'', JNumber ''420'')]])]"

definition example_snapshot :: ProjectSnapshot where
  "example_snapshot =
    \<lparr>Version = ''1.0.0'',
     Files = [\<lparr>Path = ''file.txt'', Contents = ''content'', IsDir = False, Mode = 0x1A4\<rparr>]\<rparr>"


definition example_denied_fs :: filesys where
  "example_denied_fs =
    \<lparr>root = Dir 0x1ED [(''snapshot.json'', File 0x1A4 4 ''JSON'')],
     faults = (\<lambda>call name. if call = SysStat \<and> name = ''out'' then Some EACCES else None)\<rparr>"

definition example_modeless_document :: json where
  "example_modeless_document =
    JObject [(''version'', JString ''1.0.0''),
             (''files'', JArray [JObject [(''path'', JString ''d''), (''is_dir'', JBool True)],
                                 JObject [(''path'', JString ''f''), (''is_dir'', JBool False)]])]"

definition example_fresh_fs :: filesys where
  "example_fresh_fs =
    \<lparr>root = Dir 0x1ED [(''snapshot.json'', File 0x1A4 4 ''JSON'')],
     faults = (\<lambda>call name. None)\<rparr>"

definition example_source_fs :: filesys where
  "example_source_fs =
    \<lparr>root = Dir 0x1ED
       [(''s'', Dir 0x1ED
          [(''big.bin'', File 0x1A4 (100 * 1024 * 1024 + 1) ''y''),
           (''max.bin'', File 0x1A4 (100 * 1024 * 1024) ''x''),
           (''node_modules'', Dir 0x1ED [(''pkg.json'', File 0x1A4 2 ''{}'')]),
           (''z.txt'', File 0x180 1 ''2'')])],
     faults = (\<lambda>call name.
       if call = SysReadDir \<and> name = ''s/node_modules'' then Some EIO else None)\<rparr>"

definition example_state :: "ProjectSnapshot \<times> int" where
  "example_state = (\<lparr>Version = ''1.0.0'', Files = []\<rparr>, 0)"

definition example_unreadable_fs :: filesys where
  "example_unreadable_fs =
    \<lparr>root = Dir 0x1ED
       [(''s'', Dir 0x1ED
          [(''a.txt'', File 0x1A4 1 ''1''),
           (''d'', Dir 0x1ED [(''b.txt'', File 0x1A4 1 ''2'')])])],
     faults = (\<lambda>call name.
       if call = SysOpen \<and> name = ''s/d/b.txt'' then Some EACCES else None)\<rparr>"

subsection \<open>I/O errors during capture, as the specification words them\<close>

text \<open>The path an error names, for the errors of the walk.\<close>

fun error_path :: "error \<Rightarrow> string option" where
  "error_path (ErrAccessing path e) = Some path"
| "error_path (ErrRelPath path msg) = Some path"
| "error_path (ErrFileInfo path e) = Some path"
| "error_path (ErrReadFile path e) = Some path"
| "error_path err = None"

text \<open>
  \<open>io_error_at\<close> says that an I/O error occurs on a node that is not ignored, at the
  node or below it: the node and the directories above it up to the source do not match
  the ignore patterns, and either its \<open>Info\<close> fails (stat error), or it is a file of at
  most \<open>maxFileSize\<close> bytes that cannot be read (read error), or it is a directory
  whose entries cannot be read (walk error), or the same holds of one of its entries.
  The source directory itself is never tested against the patterns and needs no \<open>Info\<close>.
\<close>

fun io_error_at :: "filesys \<Rightarrow> string \<Rightarrow> string list \<Rightarrow> string \<Rightarrow> node \<Rightarrow> bool"
  and io_error_among ::
    "filesys \<Rightarrow> string \<Rightarrow> string list \<Rightarrow> string \<Rightarrow> (string \<times> node) list \<Rightarrow> bool"
where
  "io_error_at fs source patterns path (File perm sz bytes) =
    (case filepath_Rel source path of
       Inl msg \<Rightarrow> False
     | Inr relPath \<Rightarrow>
         relPath \<noteq> ''.'' \<and> \<not> shouldIgnore relPath patterns
         \<and> (syscall_fault fs SysLstat path \<noteq> None
              \<or> (sz \<le> maxFileSize \<and> isl (os_ReadFile fs path))))"
| "io_error_at fs source patterns path (Dir perm ents) =
    (case filepath_Rel source path of
       Inl msg \<Rightarrow> False
     | Inr relPath \<Rightarrow>
         (relPath = ''.'' \<or> \<not> shouldIgnore relPath patterns)
         \<and> ((relPath \<noteq> ''.'' \<and> syscall_fault fs SysLstat path \<noteq> None)
              \<or> syscall_fault fs SysReadDir path \<noteq> None
              \<or> io_error_among fs source patterns path ents))"
| "io_error_among fs source patterns path [] = False"
| "io_error_among fs source patterns path ((name, n) # rest) =
    (io_error_at fs source patterns (filepath_Join path name) n
     \<or> io_error_among fs source patterns path rest)"

definition capture_io_error :: "filesys \<Rightarrow> string \<Rightarrow> string list \<Rightarrow> bool" where
  "capture_io_error fs source patterns =
    (case os_Lstat fs source of
       Inl e \<Rightarrow> True
     | Inr n \<Rightarrow> io_error_at fs source patterns source n)"

text \<open>
  \<open>first_error_at\<close> is the first error on the way through a node and what is below it,
  in the order of the walk (a node, then its entries in the order \<open>ReadDir\<close> lists
  them), or none. A node that is ignored has no error, and nothing below an ignored
  directory has one. A node that is not ignored has the error of its \<open>Info\<close>, if that
  fails; else a file of at most \<open>maxFileSize\<close> bytes has the error of reading it, and a
  directory the error of listing its entries or the first error among them. Every error
  carries the path of the node where the call failed and the error of that call. A path
  that \<open>filepath.Rel\<close> cannot make relative to the source is an error of its node too
  (none of the paths the walk builds is one). The source itself is not tested against
  the patterns and needs no \<open>Info\<close>; an error of the \<open>lstat\<close> on it is the first error.
\<close>

fun first_error_at ::
    "filesys \<Rightarrow> string \<Rightarrow> string list \<Rightarrow> string \<Rightarrow> node \<Rightarrow> error option"
  and first_error_among ::
    "filesys \<Rightarrow> string \<Rightarrow> string list \<Rightarrow> string \<Rightarrow> (string \<times> node) list \<Rightarrow> error option"
where
  "first_error_at fs source patterns path (File perm sz bytes) =
    (case filepath_Rel source path of
       Inl msg \<Rightarrow> Some (ErrRelPath path msg)
     | Inr relPath \<Rightarrow>
         if relPath = ''.'' \<or> shouldIgnore relPath patterns then None
         else
           (case syscall_fault fs SysLstat path of
              Some e \<Rightarrow> Some (ErrFileInfo path e)
            | None \<Rightarrow>
               if sz > maxFileSize then None
               else
                 (case os_ReadFile fs path of
                    Inl e \<Rightarrow> Some (ErrReadFile path e)
                  | Inr data \<Rightarrow> None)))"
| "first_error_at fs source patterns path (Dir perm ents) =
    (case filepath_Rel source path of
       Inl msg \<Rightarrow> Some (ErrRelPath path msg)
     | Inr relPath \<Rightarrow>
         if relPath \<noteq> ''.'' \<and> shouldIgnore relPath patterns then None
         else
           (case (if relPath = ''.'' then None else syscall_fault fs SysLstat path) of
              Some e \<Rightarrow> Some (ErrFileInfo path e)
            | None \<Rightarrow>
               (case syscall_fault fs SysReadDir path of
                  Some e \<Rightarrow> Some (ErrAccessing path e)
                | None \<Rightarrow> first_error_among fs source patterns path ents)))"
| "first_error_among fs source patterns path [] = None"
| "first_error_among fs source patterns path ((name, n) # rest) =
    (case first_error_at fs source patterns (filepath_Join path name) n of
       Some e \<Rightarrow> Some e
     | None \<Rightarrow> first_error_among fs source patterns path rest)"

definition capture_first_error :: "filesys \<Rightarrow> string \<Rightarrow> string list \<Rightarrow> error option" where
  "capture_first_error fs source patterns =
    (case os_Lstat fs source of
       Inl e \<Rightarrow> Some (ErrAccessing source e)
     | Inr n \<Rightarrow> first_error_at fs source patterns source n)"

text \<open>
  \<open>reports_failure\<close> says of an error that the call it names fails on the path it
  names, with the error it holds.
\<close>

fun reports_failure :: "filesys \<Rightarrow> string \<Rightarrow> error \<Rightarrow> bool" where
  "reports_failure fs source (ErrAccessing path e) =
    (syscall_fault fs SysReadDir path = Some e \<or> (path = source \<and> os_Lstat fs source = Inl e))"
| "reports_failure fs source (ErrFileInfo path e) = (syscall_fault fs SysLstat path = Some e)"
| "reports_failure fs source (ErrReadFile path e) = (os_ReadFile fs path = Inl e)"
| "reports_failure fs source (ErrRelPath path msg) = (filepath_Rel source path = Inl msg)"
| "reports_failure fs source err = False"

section \<open>Properties\<close>

subsection \<open>Ignore rules\<close>

lemma strings_Contains_empty: "strings_Contains s []"
  by (cases s) (simp_all add: strings_HasPrefix_def)

lemma strings_HasPrefix_iff: "strings_HasPrefix s pre \<longleftrightarrow> (\<exists>b. s = pre @ b)"
proof
  assume "strings_HasPrefix s pre"
  then have "s = pre @ drop (length pre) s"
    by (metis append_take_drop_id strings_HasPrefix_def)
  then show "\<exists>b. s = pre @ b" ..
next
  assume "\<exists>b. s = pre @ b"
  then show "strings_HasPrefix s pre"
    by (auto simp: strings_HasPrefix_def)
qed

lemma strings_Contains_iff: "strings_Contains s substr \<longleftrightarrow> (\<exists>a b. s = a @ substr @ b)"
proof (induction s)
  case Nil
  then show ?case by auto
next
  case (Cons c s)
  show ?case
  proof
    assume "strings_Contains (c # s) substr"
    then consider "strings_HasPrefix (c # s) substr" | "strings_Contains s substr"
      by auto
    then show "\<exists>a b. c # s = a @ substr @ b"
    proof cases
      case 1
      then obtain b where "c # s = substr @ b"
        by (auto simp: strings_HasPrefix_iff)
      then have "c # s = [] @ substr @ b" by simp
      then show ?thesis by blast
    next
      case 2
      with Cons.IH obtain a b where "s = a @ substr @ b" by blast
      then have "c # s = (c # a) @ substr @ b" by simp
      then show ?thesis by blast
    qed
  next
    assume "\<exists>a b. c # s = a @ substr @ b"
    then obtain a b where eq: "c # s = a @ substr @ b" by blast
    show "strings_Contains (c # s) substr"
    proof (cases a)
      case Nil
      with eq have "strings_HasPrefix (c # s) substr"
        by (auto simp: strings_HasPrefix_iff)
      then show ?thesis by simp
    next
      case (Cons c' a')
      with eq have "s = a' @ substr @ b" by simp
      with Cons.IH have "strings_Contains s substr" by blast
      then show ?thesis by simp
    qed
  qed
qed

text \<open>
  Claim C1, as the code has it. \<open>shouldIgnore path patterns\<close> is true if and only if
  some pattern of the list, for which \<open>filepath.Match\<close> on the base name of the path
  reports no malformed pattern, either matches the base name or occurs as a substring of
  the slash form of the path. A pattern that \<open>filepath.Match\<close> reports as malformed is
  skipped and never causes a match, also when it occurs in the path.
\<close>

theorem shouldIgnore_iff_wellformed_pattern:
  "shouldIgnore path patterns \<longleftrightarrow>
     (\<exists>pattern \<in> set patterns.
        filepath_Match pattern (filepath_Base path) = Inr True
        \<or> (filepath_Match pattern (filepath_Base path) = Inr False
            \<and> (\<exists>a b. filepath_ToSlash path = a @ pattern @ b)))"
proof (induction patterns)
  case Nil
  show ?case by simp
next
  case (Cons pattern patterns)
  show ?case
  proof (cases "filepath_Match pattern (filepath_Base path)")
    case (Inl e)
    with Cons.IH show ?thesis by simp
  next
    case (Inr matched)
    with Cons.IH show ?thesis
      by (cases matched) (auto simp: strings_Contains_iff)
  qed
qed

theorem shouldIgnore_iff_wellformed_pattern_witness:
  "shouldIgnore ''src/.git/config'' [''.git'']"
proof -
  have m: "filepath_Match ''.git'' (filepath_Base ''src/.git/config'') = Inr False"
    by code_simp
  have s: "filepath_ToSlash ''src/.git/config'' = ''src/'' @ ''.git'' @ ''/config''"
    by code_simp
  from m s show ?thesis
    unfolding shouldIgnore_iff_wellformed_pattern [of "''src/.git/config''" "[''.git'']"]
    by (metis list.set_intros(1))
qed

text \<open>
  Claim C1 as stated fails for the pattern \<open>[\<close> and the path \<open>a[b\<close>: the pattern is a
  malformed glob, it occurs in the path, and the path is not ignored.
\<close>

theorem shouldIgnore_malformed_substring_counterexample:
  "filepath_Match ''['' (filepath_Base ''a[b'') = Inl ErrBadPattern
   \<and> filepath_ToSlash ''a[b'' = ''a'' @ ''['' @ ''b''
   \<and> \<not> shouldIgnore ''a[b'' [''['']"
  by code_simp

subsection \<open>The snapshot codec\<close>

lemma json_coerce_string_valid:
  "utf8_ValidString s \<Longrightarrow> json_coerce_string s = s"
proof (induction s rule: utf8_ValidString.induct)
  case (1 s)
  show ?case
  proof (cases "s = []")
    case True
    then show ?thesis by (simp add: json_coerce_string.simps)
  next
    case False
    obtain r n where d: "utf8_DecodeRuneInString s = (r, n)"
      by (cases "utf8_DecodeRuneInString s")
    from "1.prems" False d have ok: "\<not> (r = RuneError \<and> n = 1)" and rest: "utf8_ValidString (drop n s)"
      by (simp_all add: utf8_ValidString.simps [of s])
    from "1.IH" [OF False d [symmetric] rest]
    have "json_coerce_string (drop n s) = drop n s" .
    with False d ok show ?thesis
      by (auto simp add: json_coerce_string.simps [of s])
  qed
qed

lemma of_char_digit_char:
  "0 \<le> d \<Longrightarrow> d < 10 \<Longrightarrow> (of_char (digit_char d) :: int) = 48 + d"
  by (simp add: digit_char_def)

lemma digits_value_snoc:
  "digits_value (s @ [c]) = digits_value s * 10 + (of_char c - 48)"
  by (simp add: digits_value_def)

lemma strconv_FormatUint_digits:
  "0 \<le> n \<Longrightarrow>
     digits_value (strconv_FormatUint n) = n
     \<and> list_all is_digit (strconv_FormatUint n)
     \<and> strconv_FormatUint n \<noteq> []"
proof (induction n rule: strconv_FormatUint.induct)
  case (1 n)
  show ?case
  proof (cases "n < 10")
    case True
    with "1.prems" show ?thesis
      by (simp add: strconv_FormatUint.simps [of n] digits_value_def is_digit_def
          of_char_digit_char)
  next
    case False
    with "1.prems" have "0 \<le> n div 10" by simp
    with "1.IH" False have ih: "digits_value (strconv_FormatUint (n div 10)) = n div 10"
      "list_all is_digit (strconv_FormatUint (n div 10))"
      by simp_all
    have m: "0 \<le> n mod 10" "n mod 10 < 10" by simp_all
    have "digits_value (strconv_FormatUint n) = (n div 10) * 10 + n mod 10"
      using False ih(1) m
      by (simp add: strconv_FormatUint.simps [of n] digits_value_snoc of_char_digit_char)
    moreover have "list_all is_digit (strconv_FormatUint n)"
      using False ih(2) m
      by (simp add: strconv_FormatUint.simps [of n] is_digit_def of_char_digit_char)
    moreover have "strconv_FormatUint n \<noteq> []"
      using False by (simp add: strconv_FormatUint.simps [of n])
    ultimately show ?thesis by simp
  qed
qed

lemma strconv_ParseUint32_FormatUint:
  "strconv_ParseUint32 (strconv_FormatUint (uint w)) = Some w"
proof -
  have "0 \<le> uint w" by simp
  from strconv_FormatUint_digits [OF this]
  have d: "digits_value (strconv_FormatUint (uint w)) = uint w"
    and a: "list_all is_digit (strconv_FormatUint (uint w))"
    and n: "strconv_FormatUint (uint w) \<noteq> []"
    by simp_all
  have "uint w < 2 ^ 32"
    using uint_bounded [of w] by simp
  with d a n show ?thesis
    by (simp add: strconv_ParseUint32_def)
qed

lemma foldName_fields:
  "foldName ''path'' = ''PATH''" "foldName ''contents'' = ''CONTENTS''"
  "foldName ''is_dir'' = ''IS_DIR''" "foldName ''mode'' = ''MODE''"
  "foldName ''version'' = ''VERSION''" "foldName ''files'' = ''FILES''"
  by code_simp+

lemma unmarshal_marshal_FileInfo:
  assumes "utf8_ValidString (Path f)" and "utf8_ValidString (Contents f)"
  shows "unmarshal_FileInfo (marshal_FileInfo f) FileInfo_zero = Inr f"
proof -
  obtain p c d m where f: "f = \<lparr>Path = p, Contents = c, IsDir = d, Mode = m\<rparr>"
    by (cases f) simp
  from assms f have co: "json_coerce_string p = p" "json_coerce_string c = c"
    by (simp_all add: json_coerce_string_valid)
  show ?thesis
    unfolding f
    by (simp add: marshal_FileInfo_def unmarshal_FileInfo_def unmarshal_FileInfo_field_def
        unmarshal_string_def unmarshal_bool_def unmarshal_uint32_def foldName_fields
        strconv_ParseUint32_FormatUint FileInfo_zero_def co Let_def)
qed

lemma unmarshal_marshal_Files:
  assumes "\<forall>f \<in> set fs. utf8_ValidString (Path f) \<and> utf8_ValidString (Contents f)"
  shows "unmarshal_Files (map marshal_FileInfo fs) [] = Inr fs"
  using assms by (induction fs) (simp_all add: unmarshal_marshal_FileInfo)

text \<open>
  Claim C2, as the code has it. For every snapshot whose version, paths and contents
  are valid UTF-8, decoding the encoded document gives the snapshot back: the same
  version, the same entries in the same order, each with its path, contents, directory
  flag and mode. This holds on the document's value and, through any printer and parser
  of the JSON syntax where the parser reads back the value the printer wrote, on the
  text that \<open>json.MarshalIndent\<close> returns.
\<close>

theorem snapshot_roundtrip_valid_utf8:
  assumes "utf8_ValidString (Version S)"
    and "\<forall>f \<in> set (Files S). utf8_ValidString (Path f) \<and> utf8_ValidString (Contents f)"
  shows "unmarshal_ProjectSnapshot (marshal_ProjectSnapshot S) ProjectSnapshot_zero = Inr S
    \<and> (\<forall>print parse text.
          json_MarshalIndent print S = Inr text \<longrightarrow>
          parse text = Some (marshal_ProjectSnapshot S) \<longrightarrow>
          json_Unmarshal parse text ProjectSnapshot_zero = Inr S)"
proof -
  obtain v fs where S: "S = \<lparr>Version = v, Files = fs\<rparr>"
    by (cases S) simp
  from assms S have co: "json_coerce_string v = v"
    and files: "unmarshal_Files (map marshal_FileInfo fs) [] = Inr fs"
    by (simp_all add: json_coerce_string_valid unmarshal_marshal_Files)
  have onvalue: "unmarshal_ProjectSnapshot (marshal_ProjectSnapshot S) ProjectSnapshot_zero = Inr S"
    unfolding S
    by (simp add: marshal_ProjectSnapshot_def unmarshal_ProjectSnapshot_def
        unmarshal_ProjectSnapshot_field_def unmarshal_string_def foldName_fields
        ProjectSnapshot_zero_def co files Let_def)
  then show ?thesis
    by (simp add: json_Unmarshal_def)
qed

theorem snapshot_roundtrip_valid_utf8_witness:
  "unmarshal_ProjectSnapshot
     (marshal_ProjectSnapshot
        \<lparr>Version = ''1.0.0'',
         Files = [\<lparr>Path = ''d'', Contents = [], IsDir = True, Mode = 0x1ED\<rparr>,
                  \<lparr>Path = ''d/a.txt'', Contents = ''1'', IsDir = False, Mode = 0x1A4\<rparr>,
                  \<lparr>Path = ''d/empty'', Contents = [], IsDir = False, Mode = 0\<rparr>]\<rparr>)
     ProjectSnapshot_zero
   = Inr \<lparr>Version = ''1.0.0'',
         Files = [\<lparr>Path = ''d'', Contents = [], IsDir = True, Mode = 0x1ED\<rparr>,
                  \<lparr>Path = ''d/a.txt'', Contents = ''1'', IsDir = False, Mode = 0x1A4\<rparr>,
                  \<lparr>Path = ''d/empty'', Contents = [], IsDir = False, Mode = 0\<rparr>]\<rparr>"
proof -
  have v: "utf8_ValidString ''1.0.0''" "utf8_ValidString ''d''" "utf8_ValidString []"
    "utf8_ValidString ''d/a.txt''" "utf8_ValidString ''1''" "utf8_ValidString ''d/empty''"
    by code_simp+
  show ?thesis
    using snapshot_roundtrip_valid_utf8
      [of "\<lparr>Version = ''1.0.0'',
         Files = [\<lparr>Path = ''d'', Contents = [], IsDir = True, Mode = 0x1ED\<rparr>,
                  \<lparr>Path = ''d/a.txt'', Contents = ''1'', IsDir = False, Mode = 0x1A4\<rparr>,
                  \<lparr>Path = ''d/empty'', Contents = [], IsDir = False, Mode = 0\<rparr>]\<rparr>"]
    by (simp add: v)
qed

text \<open>
  Claim C2 as stated fails for contents that are not valid UTF-8 (a binary file): the
  encoder replaces the byte \<open>0xFF\<close> by U+FFFD, so the decoded contents differ.
\<close>

theorem snapshot_roundtrip_binary_counterexample:
  "unmarshal_ProjectSnapshot
     (marshal_ProjectSnapshot
        \<lparr>Version = ''1.0.0'',
         Files = [\<lparr>Path = ''f'', Contents = [CHR 0xFF], IsDir = False, Mode = 0x1A4\<rparr>]\<rparr>)
     ProjectSnapshot_zero
   = Inr \<lparr>Version = ''1.0.0'',
         Files = [\<lparr>Path = ''f'', Contents = [CHR 0xEF, CHR 0xBF, CHR 0xBD],
                   IsDir = False, Mode = 0x1A4\<rparr>]\<rparr>
   \<and> [CHR 0xEF, CHR 0xBF, CHR 0xBD] \<noteq> [CHR 0xFF]"
  by code_simp




subsection \<open>Restore\<close>

lemma restoreFiles_not_DestinationExists:
  "fst (restoreFiles fs destination files) \<noteq> Some (ErrDestinationExists d)"
  by (induction files arbitrary: fs)
    (auto simp: Let_def split: sum.splits prod.splits option.splits)




text \<open>
  Claim C10. When \<open>os.Stat\<close> on the destination returns an error, whichever it is
  (not only that the destination does not exist), \<open>restoreProject\<close> does not stop there:
  for every snapshot document it goes on to create the destination and to write the
  entries, and what it returns is what these steps return; it never reports that the
  destination exists.
\<close>

theorem restoreProject_stat_error_proceeds:
  assumes "os_Stat fs destination = Inl e"
    and "validatePath fs configFile True = None"
    and "os_ReadFile fs configFile = Inr data"
    and "json_Unmarshal parse data ProjectSnapshot_zero = Inr snapshot"
  shows "restoreProject parse fs configFile destination
      = (case os_MkdirAll fs destination dirPerms of
           (Some e', fs1) \<Rightarrow> (Some (ErrCreateDestination e'), fs1)
         | (None, fs1) \<Rightarrow> restoreFiles fs1 destination (Files snapshot))
    \<and> fst (restoreProject parse fs configFile destination)
          \<noteq> Some (ErrDestinationExists destination)"
  using assms restoreFiles_not_DestinationExists
  by (auto simp: restoreProject_def split: sum.splits prod.splits option.splits)

theorem restoreProject_stat_error_proceeds_witness:
  "os_Stat example_denied_fs ''out'' = Inl EACCES
   \<and> fst (restoreProject (\<lambda>data. Some example_document) example_denied_fs ''snapshot.json'' ''out'')
       = None
   \<and> root (snd (restoreProject (\<lambda>data. Some example_document) example_denied_fs
                 ''snapshot.json'' ''out''))
       = Dir 0x1ED [(''out'', Dir 0x1ED [(''file.txt'', File 0x1A4 7 ''content'')]),
                    (''snapshot.json'', File 0x1A4 4 ''JSON'')]"
proof -
  have dest: "os_Stat example_denied_fs ''out'' = Inl EACCES"
    by code_simp
  have cfg: "validatePath example_denied_fs ''snapshot.json'' True = None"
    "os_ReadFile example_denied_fs ''snapshot.json'' = Inr ''JSON''"
    by code_simp+
  have doc: "json_Unmarshal (\<lambda>data. Some example_document) ''JSON'' ProjectSnapshot_zero
      = Inr example_snapshot"
    by code_simp
  have steps: "fst (case os_MkdirAll example_denied_fs ''out'' dirPerms of
           (Some e', fs1) \<Rightarrow> (Some (ErrCreateDestination e'), fs1)
         | (None, fs1) \<Rightarrow> restoreFiles fs1 ''out'' (Files example_snapshot))
      = None"
    "root (snd (case os_MkdirAll example_denied_fs ''out'' dirPerms of
           (Some e', fs1) \<Rightarrow> (Some (ErrCreateDestination e'), fs1)
         | (None, fs1) \<Rightarrow> restoreFiles fs1 ''out'' (Files example_snapshot)))
      = Dir 0x1ED [(''out'', Dir 0x1ED [(''file.txt'', File 0x1A4 7 ''content'')]),
                   (''snapshot.json'', File 0x1A4 4 ''JSON'')]"
    by code_simp+
  from restoreProject_stat_error_proceeds [OF dest cfg doc] steps dest show ?thesis
    by simp
qed

text \<open>
  Claim C4 at a directory entry whose stored mode is zero (the document gives no mode):
  \<open>restoreProject\<close> creates the directory with mode zero, not with the default
  directory mode \<open>dirPerms\<close>, while a file entry with mode zero gets the default file
  mode.
\<close>

theorem restoreProject_directory_zero_mode:
  "fst (restoreProject (\<lambda>data. Some example_modeless_document) example_fresh_fs
          ''snapshot.json'' ''out'') = None
   \<and> root (snd (restoreProject (\<lambda>data. Some example_modeless_document) example_fresh_fs
                 ''snapshot.json'' ''out''))
       = Dir 0x1ED [(''out'', Dir dirPerms [(''d'', Dir 0 []), (''f'', File defaultPerms 0 [])]),
                    (''snapshot.json'', File 0x1A4 4 ''JSON'')]"
  by code_simp

subsection \<open>Capture: the walk at one node\<close>

lemma filepath_Match_empty_pattern: "filepath_Match [] name = Inr (name = [])"
  by (simp add: filepath_Match.simps)

lemma shouldIgnore_empty_pattern: "[] \<in> set patterns \<Longrightarrow> shouldIgnore path patterns"
proof (induction patterns)
  case Nil
  then show ?case by simp
next
  case (Cons pattern patterns)
  show ?case
  proof (cases "pattern = []")
    case True
    then show ?thesis
      by (simp add: filepath_Match_empty_pattern strings_Contains_empty)
  next
    case False
    with Cons have "shouldIgnore path patterns" by simp
    then show ?thesis
      by (simp split: sum.splits)
  qed
qed

lemma cloneProject_walk_ignored:
  assumes "filepath_Rel source path = Inr relPath" and "relPath \<noteq> ''.''"
    and "shouldIgnore relPath patterns"
  shows "cloneProject_walk fs source patterns path (Some n) None st
    = (if isDir n then Some SkipDir else None, st)"
  using assms by (simp add: cloneProject_walk_def)

lemma walkDir_ignored:
  assumes "filepath_Rel source path = Inr relPath" and "relPath \<noteq> ''.''"
    and "shouldIgnore relPath patterns"
  shows "walkDir fs (cloneProject_walk fs source patterns) path n st = (None, st)"
  using cloneProject_walk_ignored [OF assms]
  by (cases n) simp_all

text \<open>
  Claim C8. In the walk over the entries of a directory, an entry whose relative path
  matches the ignore patterns adds nothing to the snapshot and the walk goes on with
  the entries after it, in the same state. This holds whatever the entry is: for a
  directory, whatever it contains and whether or not it can be read, so nothing below it
  is visited; for a file, only this entry is skipped.
\<close>

theorem capture_ignored_entry_pruned:
  assumes "filepath_Rel source (filepath_Join dir name) = Inr relPath"
    and "relPath \<noteq> ''.''"
    and "shouldIgnore relPath patterns"
  shows "walkDir fs (cloneProject_walk fs source patterns) (filepath_Join dir name) n st
      = (None, st)
    \<and> walkDir_entries fs (cloneProject_walk fs source patterns) dir ((name, n) # rest) st
      = walkDir_entries fs (cloneProject_walk fs source patterns) dir rest st"
  using walkDir_ignored [OF assms] by simp

theorem capture_ignored_entry_pruned_witness:
  "walkDir_entries example_source_fs (cloneProject_walk example_source_fs ''s'' [''node_modules''])
      ''s'' [(''node_modules'', Dir 0x1ED [(''pkg.json'', File 0x1A4 2 ''{}'')]),
             (''z.txt'', File 0x180 1 ''2'')] example_state
    = (None, \<lparr>Version = ''1.0.0'',
                Files = [\<lparr>Path = ''z.txt'', Contents = ''2'', IsDir = False, Mode = 0x180\<rparr>]\<rparr>, 1)"
proof -
  have rel: "filepath_Rel ''s'' (filepath_Join ''s'' ''node_modules'') = Inr ''node_modules''"
    by code_simp
  have ign: "shouldIgnore ''node_modules'' [''node_modules'']"
    by code_simp
  have rest: "walkDir_entries example_source_fs
      (cloneProject_walk example_source_fs ''s'' [''node_modules''])
      ''s'' [(''z.txt'', File 0x180 1 ''2'')] example_state
    = (None, \<lparr>Version = ''1.0.0'',
                Files = [\<lparr>Path = ''z.txt'', Contents = ''2'', IsDir = False, Mode = 0x180\<rparr>]\<rparr>, 1)"
    by code_simp
  have ne: "''node_modules'' \<noteq> ''.''"
    by simp
  have "walkDir_entries example_source_fs
      (cloneProject_walk example_source_fs ''s'' [''node_modules''])
      ''s'' [(''node_modules'', Dir 0x1ED [(''pkg.json'', File 0x1A4 2 ''{}'')]),
             (''z.txt'', File 0x180 1 ''2'')] example_state
    = walkDir_entries example_source_fs
      (cloneProject_walk example_source_fs ''s'' [''node_modules''])
      ''s'' [(''z.txt'', File 0x180 1 ''2'')] example_state"
    using capture_ignored_entry_pruned [OF rel ne ign] by (rule conjunct2)
  with rest show ?thesis by (simp only:)
qed

text \<open>
  Claim C6. For a file that is not ignored and whose \<open>Info\<close> succeeds: when its size is
  exactly \<open>maxFileSize\<close> and it can be read, the walk adds its entry with all the bytes
  read and goes on with the next entries; when its size is \<open>maxFileSize\<close> plus one byte
  or more, the walk adds no entry for it, does not read it, and goes on with the next
  entries in the same state, with no error.
\<close>

theorem capture_size_boundary:
  assumes "filepath_Rel source (filepath_Join dir name) = Inr relPath"
    and "relPath \<noteq> ''.''"
    and "\<not> shouldIgnore relPath patterns"
    and "DirEntry_Info fs (filepath_Join dir name) (File perm sz bytes) = Inr info"
  shows "(sz = maxFileSize \<longrightarrow> os_ReadFile fs (filepath_Join dir name) = Inr data \<longrightarrow>
            walkDir_entries fs (cloneProject_walk fs source patterns) dir
                ((name, File perm sz bytes) # rest) (snapshot, fileCount)
              = walkDir_entries fs (cloneProject_walk fs source patterns) dir rest
                  (snapshot\<lparr>Files := Files snapshot
                      @ [\<lparr>Path = filepath_ToSlash relPath, Contents = data, IsDir = False,
                          Mode = FileMode_Perm perm\<rparr>]\<rparr>,
                   fileCount + 1))
    \<and> (maxFileSize + 1 \<le> sz \<longrightarrow>
            walkDir_entries fs (cloneProject_walk fs source patterns) dir
                ((name, File perm sz bytes) # rest) (snapshot, fileCount)
              = walkDir_entries fs (cloneProject_walk fs source patterns) dir rest
                  (snapshot, fileCount))"
proof -
  from assms(4) have info: "info = File perm sz bytes"
    by (auto simp: DirEntry_Info_def split: option.splits)
  with assms show ?thesis
    by (auto simp: cloneProject_walk_def)
qed

theorem capture_size_boundary_witness:
  "walkDir_entries example_source_fs (cloneProject_walk example_source_fs ''s'' [''.git''])
      ''s'' [(''max.bin'', File 0x1A4 (100 * 1024 * 1024) ''x'')] example_state
    = (None, \<lparr>Version = ''1.0.0'',
                Files = [\<lparr>Path = ''max.bin'', Contents = ''x'', IsDir = False, Mode = 0x1A4\<rparr>]\<rparr>, 1)
   \<and> walkDir_entries example_source_fs (cloneProject_walk example_source_fs ''s'' [''.git''])
      ''s'' [(''big.bin'', File 0x1A4 (100 * 1024 * 1024 + 1) ''y'')] example_state
    = (None, example_state)"
proof -
  have rel: "filepath_Rel ''s'' (filepath_Join ''s'' ''max.bin'') = Inr ''max.bin''"
    "filepath_Rel ''s'' (filepath_Join ''s'' ''big.bin'') = Inr ''big.bin''"
    by code_simp+
  have ign: "\<not> shouldIgnore ''max.bin'' [''.git'']" "\<not> shouldIgnore ''big.bin'' [''.git'']"
    by code_simp+
  have info: "DirEntry_Info example_source_fs (filepath_Join ''s'' ''max.bin'')
        (File 0x1A4 (100 * 1024 * 1024) ''x'') = Inr (File 0x1A4 (100 * 1024 * 1024) ''x'')"
    "DirEntry_Info example_source_fs (filepath_Join ''s'' ''big.bin'')
        (File 0x1A4 (100 * 1024 * 1024 + 1) ''y'') = Inr (File 0x1A4 (100 * 1024 * 1024 + 1) ''y'')"
    by code_simp+
  have read: "os_ReadFile example_source_fs (filepath_Join ''s'' ''max.bin'') = Inr ''x''"
    by code_simp
  have slash: "filepath_ToSlash ''max.bin'' = ''max.bin''" "FileMode_Perm 0x1A4 = 0x1A4"
    by code_simp+
  have ne: "''max.bin'' \<noteq> ''.''" "''big.bin'' \<noteq> ''.''"
    by simp_all
  have sz: "100 * 1024 * 1024 = maxFileSize" "maxFileSize + 1 \<le> 100 * 1024 * 1024 + 1"
    by (simp_all add: maxFileSize_def)
  have nil: "walkDir_entries example_source_fs
      (cloneProject_walk example_source_fs ''s'' [''.git'']) ''s'' [] st = (None, st)" for st
    by simp
  have "walkDir_entries example_source_fs (cloneProject_walk example_source_fs ''s'' [''.git''])
      ''s'' [(''max.bin'', File 0x1A4 (100 * 1024 * 1024) ''x'')]
      (\<lparr>Version = ''1.0.0'', Files = []\<rparr>, 0)
    = (None, \<lparr>Version = ''1.0.0'', Files = []\<rparr>\<lparr>Files := Files \<lparr>Version = ''1.0.0'', Files = []\<rparr>
          @ [\<lparr>Path = filepath_ToSlash ''max.bin'', Contents = ''x'', IsDir = False,
              Mode = FileMode_Perm 0x1A4\<rparr>]\<rparr>, 0 + 1)"
    using capture_size_boundary [OF rel(1) ne(1) ign(1) info(1), of "''x''" "[]"
        "\<lparr>Version = ''1.0.0'', Files = []\<rparr>" 0] sz(1) read
    by (simp only: nil)
  moreover have "walkDir_entries example_source_fs
      (cloneProject_walk example_source_fs ''s'' [''.git''])
      ''s'' [(''big.bin'', File 0x1A4 (100 * 1024 * 1024 + 1) ''y'')]
      (\<lparr>Version = ''1.0.0'', Files = []\<rparr>, 0)
    = (None, \<lparr>Version = ''1.0.0'', Files = []\<rparr>, 0)"
    using capture_size_boundary [OF rel(2) ne(2) ign(2) info(2), of "''y''" "[]"
        "\<lparr>Version = ''1.0.0'', Files = []\<rparr>" 0] sz(2)
    by (simp only: nil)
  ultimately show ?thesis
    by (simp add: example_state_def slash)
qed


subsection \<open>Capture: the whole walk\<close>

lemma cloneProject_walk_state_empty_pattern:
  "[] \<in> set patterns \<Longrightarrow> snd (cloneProject_walk fs source patterns path d err st) = st"
  by (auto simp: cloneProject_walk_def shouldIgnore_empty_pattern split: option.splits sum.splits)

lemma walkDir_state_preserved:
  fixes fn :: "'st walkFunc"
  assumes "\<And>path d err st. snd (fn path d err st) = st"
  shows "snd (walkDir fs fn path n st) = st"
    and "snd (walkDir_entries fs fn path ents st) = st"
  using assms
proof (induction fs fn path n st and fs fn path ents st rule: walkDir_walkDir_entries.induct)
  case (1 fs fn path perm sz data st)
  then show ?case by simp
next
  case (2 fs fn path perm ents st)
  have keep: "\<And>d err r st1. fn path d err st = (r, st1) \<Longrightarrow> st1 = st"
    using "2.prems" by (metis snd_conv)
  show ?case
  proof (cases "fn path (Some (Dir perm ents)) None st")
    case (Pair r st1)
    then have st1: "st1 = st" by (rule keep)
    show ?thesis
    proof (cases r)
      case (Some err)
      with Pair st1 show ?thesis by simp
    next
      case None
      show ?thesis
      proof (cases "syscall_fault fs SysReadDir path")
        case no_fault: None
        from "2.IH" [OF Pair [symmetric] None no_fault] "2.prems"
        have "snd (walkDir_entries fs fn path ents st1) = st1" by simp
        with Pair None no_fault st1 show ?thesis by simp
      next
        case (Some e)
        obtain r2 st2 where second: "fn path (Some (Dir perm ents)) (Some e) st = (r2, st2)"
          by (cases "fn path (Some (Dir perm ents)) (Some e) st")
        then have "st2 = st" by (rule keep)
        with Pair None Some second st1 show ?thesis
          by (cases r2) simp_all
      qed
    qed
  qed
next
  case (3 fs fn path st)
  then show ?case by simp
next
  case (4 fs fn path name d1 rest st)
  from "4.IH"(1) "4.prems"
  have first: "snd (walkDir fs fn (filepath_Join path name) d1 st) = st" by simp
  show ?case
  proof (cases "walkDir fs fn (filepath_Join path name) d1 st")
    case (Pair r st1)
    with first have st1: "st1 = st" by simp
    show ?thesis
    proof (cases r)
      case (Some err)
      with Pair st1 show ?thesis by simp
    next
      case None
      from "4.IH"(2) [OF Pair [symmetric] None] "4.prems"
      have "snd (walkDir_entries fs fn path rest st1) = st1" by simp
      with Pair None st1 show ?thesis by simp
    qed
  qed
qed

lemma filepath_WalkDir_state_preserved:
  fixes fn :: "'st walkFunc"
  assumes "\<And>path d err st. snd (fn path d err st) = st"
  shows "snd (filepath_WalkDir fs root_path fn st) = st"
proof -
  have "snd (case os_Lstat fs root_path of
             Inl e \<Rightarrow> fn root_path None (Some e) st
           | Inr info \<Rightarrow> walkDir fs fn root_path info st) = st"
    using assms walkDir_state_preserved(1) [of fn fs root_path _ st, OF assms]
    by (simp split: sum.splits)
  then show ?thesis
    by (auto simp: filepath_WalkDir_def split: prod.splits option.splits)
qed

text \<open>
  Claim C9. When the empty string is among the patterns, \<open>shouldIgnore\<close> is true for
  every path, and the walk of \<open>cloneProject\<close> over any source leaves the snapshot as
  it was before the walk: no node under the root gets an entry.
\<close>

theorem empty_pattern_ignores_every_path:
  assumes "[] \<in> set patterns"
  shows "shouldIgnore path patterns
    \<and> snd (filepath_WalkDir fs source (cloneProject_walk fs source patterns) st) = st"
  using assms
  by (simp add: shouldIgnore_empty_pattern filepath_WalkDir_state_preserved
      cloneProject_walk_state_empty_pattern)

theorem empty_pattern_ignores_every_path_witness:
  "shouldIgnore ''src/main.go'' [''.git'', []]
   \<and> snd (filepath_WalkDir example_source_fs ''s''
            (cloneProject_walk example_source_fs ''s'' [''.git'', []]) example_state)
       = example_state"
  using empty_pattern_ignores_every_path [of "[''.git'', []]"]
  by simp


subsection \<open>Capture: I/O errors\<close>

lemma first_error_reports_failure:
  "first_error_at fs source patterns path n = Some e \<Longrightarrow>
     reports_failure fs source e \<and> error_path e \<noteq> None"
  "first_error_among fs source patterns path ents = Some e \<Longrightarrow>
     reports_failure fs source e \<and> error_path e \<noteq> None"
proof (induction fs source patterns path n and fs source patterns path ents
    rule: first_error_at_first_error_among.induct)
  case (1 fs source patterns path perm sz bytes)
  then show ?case
    by (auto split: sum.splits option.splits if_splits)
next
  case (2 fs source patterns path perm ents)
  then show ?case
    by (auto split: sum.splits option.splits if_splits)
next
  case (3 fs source patterns path)
  then show ?case by simp
next
  case (4 fs source patterns path name n rest)
  then show ?case
    by (auto split: option.splits)
qed

lemma io_error_first_error:
  "io_error_at fs source patterns path n \<Longrightarrow> first_error_at fs source patterns path n \<noteq> None"
  "io_error_among fs source patterns path ents \<Longrightarrow>
     first_error_among fs source patterns path ents \<noteq> None"
proof (induction fs source patterns path n and fs source patterns path ents
    rule: io_error_at_io_error_among.induct)
  case (1 fs source patterns path perm sz bytes)
  then show ?case
    by (auto simp: isl_def split: sum.splits option.splits)
next
  case (2 fs source patterns path perm ents)
  then show ?case
    by (auto split: sum.splits option.splits)
next
  case (3 fs source patterns path)
  then show ?case by simp
next
  case (4 fs source patterns path name n rest)
  then show ?case
    by (auto split: option.splits)
qed

lemma walk_first_error:
  "fst (walkDir fs (cloneProject_walk fs source patterns) path n st)
     = first_error_at fs source patterns path n"
  "fst (walkDir_entries fs (cloneProject_walk fs source patterns) path ents st)
     = first_error_among fs source patterns path ents"
proof (induction fs source patterns path n and fs source patterns path ents
    arbitrary: st and st rule: first_error_at_first_error_among.induct)
  case (1 fs source patterns path perm sz bytes)
  show ?case
    by (auto simp: cloneProject_walk_def DirEntry_Info_def Let_def
        split: sum.splits option.splits)
next
  case (2 fs source patterns path perm ents)
  let ?fn = "cloneProject_walk fs source patterns"
  show ?case
  proof (cases "filepath_Rel source path")
    case (Inl msg)
    then show ?thesis
      by (simp add: cloneProject_walk_def)
  next
    case (Inr relPath)
    show ?thesis
    proof (cases "relPath \<noteq> ''.'' \<and> shouldIgnore relPath patterns")
      case True
      with Inr show ?thesis
        by (simp add: cloneProject_walk_def)
    next
      case visited: False
      show ?thesis
      proof (cases "if relPath = ''.'' then None else syscall_fault fs SysLstat path")
        case (Some e1)
        with Inr visited show ?thesis
          by (auto simp: cloneProject_walk_def DirEntry_Info_def split: if_splits)
      next
        case None
        with Inr visited have "fst (?fn path (Some (Dir perm ents)) None st) = None"
          by (auto simp: cloneProject_walk_def DirEntry_Info_def Let_def
              split: option.splits if_splits)
        then obtain st1 where first: "?fn path (Some (Dir perm ents)) None st = (None, st1)"
          by (cases "?fn path (Some (Dir perm ents)) None st") auto
        show ?thesis
        proof (cases "syscall_fault fs SysReadDir path")
          case (Some e1)
          have "?fn path (Some (Dir perm ents)) (Some e1) st1 = (Some (ErrAccessing path e1), st1)"
            by (simp add: cloneProject_walk_def)
          with first Some Inr visited None show ?thesis
            by simp
        next
          case no_fault: None
          from "2.IH" [OF Inr visited None no_fault, of st1] first no_fault Inr visited None
          show ?thesis
            by auto
        qed
      qed
    qed
  qed
next
  case (3 fs source patterns path)
  show ?case by simp
next
  case (4 fs source patterns path name n rest)
  let ?fn = "cloneProject_walk fs source patterns"
  obtain r st1 where first: "walkDir fs ?fn (filepath_Join path name) n st = (r, st1)"
    by (cases "walkDir fs ?fn (filepath_Join path name) n st")
  with "4.IH"(1) [of st] have r: "r = first_error_at fs source patterns (filepath_Join path name) n"
    by simp
  show ?case
  proof (cases r)
    case (Some err)
    with r first_error_reports_failure(1) [of fs source patterns "filepath_Join path name" n err]
    have "err \<noteq> SkipDir"
      by auto
    with first Some r show ?thesis
      by simp
  next
    case None
    with r have "first_error_at fs source patterns (filepath_Join path name) n = None"
      by simp
    from "4.IH"(2) [OF this, of st1] first None r show ?thesis
      by simp
  qed
qed

text \<open>
  Claim C7. Let the source be a directory that \<open>cloneProject\<close> accepts. If an I/O error
  occurs on a node that is not ignored (the entries of a directory cannot be read, the
  \<open>Info\<close> of a node fails, or a file within the size limit cannot be read), then
  \<open>cloneProject\<close> returns the first error of the walk: the error of the first node, in
  the order of the walk, at which a call fails. That error names the path of this node,
  and the call it names fails on that path with the error it holds. The file system
  \<open>cloneProject\<close> leaves is the one it found: no document has been written.
\<close>

theorem cloneProject_io_error_aborts:
  assumes "validatePath fs source True = None"
    and "os_Stat fs source = Inr sourceInfo"
    and "isDir sourceInfo"
    and "capture_io_error fs source (loadGitignore fs source @ ignorePatterns)"
  shows "\<exists>e. capture_first_error fs source (loadGitignore fs source @ ignorePatterns) = Some e
             \<and> reports_failure fs source e
             \<and> (\<exists>p. error_path e = Some p)
             \<and> cloneProject print ignorePatterns fs source outputFile = (Some e, fs)"
proof -
  let ?patterns = "loadGitignore fs source @ ignorePatterns"
  let ?fn = "cloneProject_walk fs source ?patterns"
  let ?st = "(\<lparr>Version = version, Files = []\<rparr>, 0 :: int)"
  have "\<exists>e. capture_first_error fs source ?patterns = Some e
      \<and> reports_failure fs source e \<and> error_path e \<noteq> None
      \<and> fst (filepath_WalkDir fs source ?fn ?st) = Some e"
  proof (cases "os_Lstat fs source")
    case (Inl e1)
    then show ?thesis
      by (simp add: filepath_WalkDir_def cloneProject_walk_def capture_first_error_def)
  next
    case (Inr n)
    with assms(4) have "io_error_at fs source ?patterns source n"
      by (simp add: capture_io_error_def)
    from io_error_first_error(1) [OF this]
    obtain e where e: "first_error_at fs source ?patterns source n = Some e"
      by blast
    from first_error_reports_failure(1) [OF e]
    have rep: "reports_failure fs source e" "error_path e \<noteq> None"
      by simp_all
    then have "e \<noteq> SkipDir"
      by auto
    moreover from walk_first_error(1) [of fs source ?patterns source n ?st] e
    have "fst (walkDir fs ?fn source n ?st) = Some e"
      by simp
    ultimately have "fst (filepath_WalkDir fs source ?fn ?st) = Some e"
      using Inr by (auto simp: filepath_WalkDir_def split: prod.splits option.splits)
    with e rep Inr show ?thesis
      by (simp add: capture_first_error_def)
  qed
  then obtain e where e: "capture_first_error fs source ?patterns = Some e"
    "reports_failure fs source e" "error_path e \<noteq> None"
    "fst (filepath_WalkDir fs source ?fn ?st) = Some e"
    by blast
  from e(4) obtain st' where "filepath_WalkDir fs source ?fn ?st = (Some e, st')"
    by (cases "filepath_WalkDir fs source ?fn ?st") auto
  with assms(1-3) have "cloneProject print ignorePatterns fs source outputFile = (Some e, fs)"
    by (simp add: cloneProject_def Let_def)
  with e(1-3) show ?thesis
    by auto
qed

theorem cloneProject_io_error_aborts_witness:
  "capture_io_error example_unreadable_fs ''s'' (loadGitignore example_unreadable_fs ''s'' @ [])
   \<and> os_ReadFile example_unreadable_fs ''s/d/b.txt'' = Inl EACCES
   \<and> cloneProject (\<lambda>j. Inr ''JSON'') [] example_unreadable_fs ''s'' ''out.json''
       = (Some (ErrReadFile ''s/d/b.txt'' EACCES), example_unreadable_fs)"
proof -
  have pre: "validatePath example_unreadable_fs ''s'' True = None"
    "os_Stat example_unreadable_fs ''s''
       = Inr (Dir 0x1ED [(''a.txt'', File 0x1A4 1 ''1''),
                         (''d'', Dir 0x1ED [(''b.txt'', File 0x1A4 1 ''2'')])])"
    "isDir (Dir 0x1ED [(''a.txt'', File 0x1A4 1 ''1''),
                       (''d'', Dir 0x1ED [(''b.txt'', File 0x1A4 1 ''2'')])])"
    by code_simp+
  have err: "capture_io_error example_unreadable_fs ''s''
      (loadGitignore example_unreadable_fs ''s'' @ [])"
    by code_simp
  have first: "capture_first_error example_unreadable_fs ''s''
      (loadGitignore example_unreadable_fs ''s'' @ []) = Some (ErrReadFile ''s/d/b.txt'' EACCES)"
    by code_simp
  have read: "os_ReadFile example_unreadable_fs ''s/d/b.txt'' = Inl EACCES"
    by code_simp
  from cloneProject_io_error_aborts [OF pre err] first err read show ?thesis
    by auto
qed

end
